theory Spec2Isabelle
  imports Main "HOL-Library.Monad_Syntax"
begin

section \<open>Values exchanged with the daemon\<close>

text \<open>
  The repository holds two Python packages of Pydantic models: the reference types
  (\<^verbatim>\<open>reference/python/types.py\<close>) and the tool template
  (\<^verbatim>\<open>templates/python-tool/src/multiclaude_tool\<close>, with \<^verbatim>\<open>types.py\<close>,
  \<^verbatim>\<open>state.py\<close> and \<^verbatim>\<open>client.py\<close>). Where both packages declare a symbol of the
  same name, the reference one is prefixed \<open>ref_\<close> here and the template one \<open>tool_\<close>.

  What \<^verbatim>\<open>json.loads\<close> returns, and what \<^verbatim>\<open>model_validate\<close> receives, is a tree of
  \<^verbatim>\<open>None\<close>, \<^verbatim>\<open>bool\<close>, \<^verbatim>\<open>int\<close>, \<^verbatim>\<open>float\<close>, \<^verbatim>\<open>str\<close>, \<^verbatim>\<open>list\<close> and \<^verbatim>\<open>dict\<close>.
  Python's integers are unbounded (\<open>int\<close>). Floats are kept abstract (the type
  parameter \<open>'f\<close>): no field of the models is a float. A \<^verbatim>\<open>dict\<close> is the list of its
  items in insertion order; in a Python \<^verbatim>\<open>dict\<close> the keys are pairwise different
  (\<open>wf_json\<close>).
\<close>

datatype 'f json =
    JNull
  | JBool bool
  | JInt int
  | JFloat 'f
  | JString string
  | JArray "'f json list"
  | JObject "(string \<times> 'f json) list"

fun wf_json :: "'f json \<Rightarrow> bool" where
  "wf_json (JArray xs) = (\<forall>x \<in> set xs. wf_json x)"
| "wf_json (JObject kvs) = (distinct (map fst kvs) \<and> (\<forall>kv \<in> set kvs. wf_json (snd kv)))"
| "wf_json _ = True"

text \<open>
  \<^verbatim>\<open>d[k] = v\<close> on a dict: an existing key keeps its place and takes the new value, a new
  key goes to the end.
\<close>

fun dict_setitem :: "(string \<times> 'a) list \<Rightarrow> string \<Rightarrow> 'a \<Rightarrow> (string \<times> 'a) list" where
  "dict_setitem [] k v = [(k, v)]"
| "dict_setitem ((k', v') # d) k v =
     (if k' = k then (k, v) # d else (k', v') # dict_setitem d k v)"

text \<open>The exceptions the modelled code raises.\<close>

datatype state_error_reason =
    StateFileNotFound string
  | InvalidJSON
  | FailedToParse

datatype exc =
    ValidationError
  | DaemonError string
  | StateError state_error_reason
  | AttributeError
  | TypeError
  | UnicodeDecodeError
  | OSError
  | JSONDecodeError
  | RecursionError
  | ValueError

definition bind_exc :: "exc + 'a \<Rightarrow> ('a \<Rightarrow> exc + 'b) \<Rightarrow> exc + 'b" where
  "bind_exc m f = (case m of Inl e \<Rightarrow> Inl e | Inr x \<Rightarrow> f x)"

text \<open>
  \<^verbatim>\<open>Path.exists()\<close> calls \<^verbatim>\<open>stat\<close>. It returns \<^verbatim>\<open>False\<close> when \<^verbatim>\<open>stat\<close> finds no entry
  (ENOENT, ENOTDIR, EBADF, ELOOP), \<^verbatim>\<open>True\<close> when \<^verbatim>\<open>stat\<close> succeeds, and lets every other
  \<^verbatim>\<open>OSError\<close> of \<^verbatim>\<open>stat\<close> through (a name that is too long, a directory of the path that
  may not be searched).
\<close>

datatype stat_result = NoEntry | StatFails | Found

definition Path_exists :: "stat_result \<Rightarrow> exc + bool" where
  "Path_exists st =
     (case st of NoEntry \<Rightarrow> Inr False | StatFails \<Rightarrow> Inl OSError | Found \<Rightarrow> Inr True)"

section \<open>Literal types and the persistent agent types\<close>

definition AgentType :: "string list" where
  "AgentType =
     [''supervisor'', ''worker'', ''merge-queue'', ''pr-shepherd'', ''workspace'', ''review'',
      ''generic-persistent'']"

definition TrackMode :: "string list" where
  "TrackMode = [''all'', ''author'', ''assigned'']"

definition TaskStatus :: "string list" where
  "TaskStatus = [''open'', ''merged'', ''closed'', ''no-pr'', ''failed'', ''unknown'']"

text \<open>
  \<^verbatim>\<open>reference/python/types.py\<close>: a \<^verbatim>\<open>frozenset\<close> built from a list;
  \<^verbatim>\<open>multiclaude_tool/types.py\<close>: a set display.
\<close>

definition ref_PERSISTENT_AGENT_TYPES :: "string set" where
  "ref_PERSISTENT_AGENT_TYPES =
     set [''supervisor'', ''merge-queue'', ''pr-shepherd'', ''workspace'', ''generic-persistent'']"

definition tool_PERSISTENT_AGENT_TYPES :: "string set" where
  "tool_PERSISTENT_AGENT_TYPES =
     {''supervisor'', ''merge-queue'', ''pr-shepherd'', ''workspace'', ''generic-persistent''}"

definition ref_is_persistent_agent_type :: "string \<Rightarrow> bool" where
  "ref_is_persistent_agent_type agent_type = (agent_type \<in> ref_PERSISTENT_AGENT_TYPES)"

definition tool_is_persistent_agent_type :: "string \<Rightarrow> bool" where
  "tool_is_persistent_agent_type agent_type = (agent_type \<in> tool_PERSISTENT_AGENT_TYPES)"

section \<open>Pydantic validation\<close>

text \<open>
  Pydantic is a library, not part of the repository. The models are validated in its
  default (lax) mode, on the values above. The rules used here:
  \<^item> a \<^verbatim>\<open>str\<close> field accepts a \<^verbatim>\<open>str\<close> and nothing else;
  \<^item> a \<^verbatim>\<open>Literal[...]\<close> field accepts exactly the listed strings;
  \<^item> an \<^verbatim>\<open>int\<close> field accepts an \<^verbatim>\<open>int\<close> as it is, a \<^verbatim>\<open>bool\<close> field a \<^verbatim>\<open>bool\<close> as it
    is; which other inputs the lax mode coerces (0 and 1, integral floats, numeric
    strings, ...) depends on the library, and is the parameter \<open>int_lax\<close>, \<open>bool_lax\<close>;
  \<^item> a \<^verbatim>\<open>datetime\<close> field is validated by the library: the parameter
    \<open>datetime_validate\<close>, into an abstract type \<open>'d\<close> of datetimes;
  \<^item> \<^verbatim>\<open>T | None\<close> accepts \<^verbatim>\<open>None\<close> and whatever \<^verbatim>\<open>T\<close> accepts;
  \<^item> \<^verbatim>\<open>list[T]\<close> accepts a list whose items all validate, \<^verbatim>\<open>dict[str, T]\<close> a dict
    whose values all validate, filling a new dict item by item;
  \<^item> a model accepts a dict: a field that is absent takes its default, or fails when
    it has none; keys that are no field are ignored.
  Validation either returns the model or raises \<^verbatim>\<open>ValidationError\<close> (\<open>None\<close> here).

  Two builtins of Python are used on values that may be floats, lists or dicts: the
  truth value of a float (\<open>float_bool\<close>) and \<^verbatim>\<open>str()\<close> of a value that is neither a
  string, \<^verbatim>\<open>None\<close> nor a bool (\<open>str_other\<close>). They are parameters as well. Every
  theorem below holds for all values of these parameters.
\<close>

record ('f, 'd) library =
  int_lax :: "'f json \<Rightarrow> int option"
  bool_lax :: "'f json \<Rightarrow> bool option"
  datetime_validate :: "'f json \<Rightarrow> 'd option"
  float_bool :: "'f \<Rightarrow> bool"
  str_other :: "'f json \<Rightarrow> string"

definition v_str :: "'f json \<Rightarrow> string option" where
  "v_str j = (case j of JString s \<Rightarrow> Some s | _ \<Rightarrow> None)"

definition v_int :: "('f, 'd) library \<Rightarrow> 'f json \<Rightarrow> int option" where
  "v_int L j = (case j of JInt i \<Rightarrow> Some i | _ \<Rightarrow> int_lax L j)"

definition v_bool :: "('f, 'd) library \<Rightarrow> 'f json \<Rightarrow> bool option" where
  "v_bool L j = (case j of JBool b \<Rightarrow> Some b | _ \<Rightarrow> bool_lax L j)"

definition v_literal :: "string list \<Rightarrow> 'f json \<Rightarrow> string option" where
  "v_literal allowed j =
     (case j of JString s \<Rightarrow> if s \<in> set allowed then Some s else None | _ \<Rightarrow> None)"

definition v_datetime :: "('f, 'd) library \<Rightarrow> 'f json \<Rightarrow> 'd option" where
  "v_datetime L j = datetime_validate L j"

definition v_optional :: "('f json \<Rightarrow> 'a option) \<Rightarrow> 'f json \<Rightarrow> 'a option option" where
  "v_optional v j = (case j of JNull \<Rightarrow> Some None | _ \<Rightarrow> map_option Some (v j))"

fun list_items :: "('x \<Rightarrow> 'a option) \<Rightarrow> 'x list \<Rightarrow> 'a list option" where
  "list_items v [] = Some []"
| "list_items v (x # xs) =
     (case v x of None \<Rightarrow> None | Some y \<Rightarrow> map_option ((#) y) (list_items v xs))"

definition v_list :: "('f json \<Rightarrow> 'a option) \<Rightarrow> 'f json \<Rightarrow> 'a list option" where
  "v_list v j = (case j of JArray xs \<Rightarrow> list_items v xs | _ \<Rightarrow> None)"

fun dict_items ::
  "('f json \<Rightarrow> 'a option) \<Rightarrow> (string \<times> 'a) list \<Rightarrow> (string \<times> 'f json) list \<Rightarrow>
   (string \<times> 'a) list option" where
  "dict_items v out [] = Some out"
| "dict_items v out ((k, x) # kvs) =
     (case v x of None \<Rightarrow> None | Some y \<Rightarrow> dict_items v (dict_setitem out k y) kvs)"

definition v_dict :: "('f json \<Rightarrow> 'a option) \<Rightarrow> 'f json \<Rightarrow> (string \<times> 'a) list option" where
  "v_dict v j = (case j of JObject kvs \<Rightarrow> dict_items v [] kvs | _ \<Rightarrow> None)"

text \<open>A field without a default, and a field with one.\<close>

definition required ::
  "('f json \<Rightarrow> 'a option) \<Rightarrow> (string \<times> 'f json) list \<Rightarrow> string \<Rightarrow> 'a option" where
  "required v obj k = (case map_of obj k of None \<Rightarrow> None | Some x \<Rightarrow> v x)"

definition with_default ::
  "'a \<Rightarrow> ('f json \<Rightarrow> 'a option) \<Rightarrow> (string \<times> 'f json) list \<Rightarrow> string \<Rightarrow> 'a option" where
  "with_default d v obj k = (case map_of obj k of None \<Rightarrow> Some d | Some x \<Rightarrow> v x)"

text \<open>Serialisation (\<^verbatim>\<open>model_dump\<close> in JSON mode) of the parts of a model.\<close>

definition dump_optional :: "('a \<Rightarrow> 'f json) \<Rightarrow> 'a option \<Rightarrow> 'f json" where
  "dump_optional f x = (case x of None \<Rightarrow> JNull | Some y \<Rightarrow> f y)"

definition dump_list :: "('a \<Rightarrow> 'f json) \<Rightarrow> 'a list \<Rightarrow> 'f json" where
  "dump_list f xs = JArray (map f xs)"

definition dump_dict :: "('a \<Rightarrow> 'f json) \<Rightarrow> (string \<times> 'a) list \<Rightarrow> 'f json" where
  "dump_dict f d = JObject (map (\<lambda>(k, y). (k, f y)) d)"

section \<open>The models\<close>

text \<open>
  The two packages declare the same classes with the same fields; they differ in the
  type of the timestamps (\<^verbatim>\<open>str\<close> in the reference types, \<^verbatim>\<open>datetime\<close> in the tool's)
  and in the defaults. One record per class, with the timestamp type as parameter:
  \<open>string\<close> for the reference types, \<open>'d\<close> for the tool's. Fields whose names several
  classes share carry the class as a prefix.
\<close>

record MergeQueueConfig =
  mq_enabled :: bool
  mq_track_mode :: string

record PRShepherdConfig =
  ps_enabled :: bool
  ps_track_mode :: string

record ForkConfig =
  is_fork :: bool
  upstream_url :: "string option"
  upstream_owner :: "string option"
  upstream_repo :: "string option"
  force_fork_mode :: "bool option"

record 't TaskHistoryEntry =
  th_name :: string
  th_task :: string
  th_branch :: string
  th_pr_url :: "string option"
  th_pr_number :: "int option"
  th_status :: string
  th_summary :: "string option"
  th_failure_reason :: "string option"
  th_created_at :: 't
  th_completed_at :: "'t option"

record 't Agent =
  agent_type :: string
  worktree_path :: string
  tmux_window :: string
  session_id :: string
  pid :: int
  task :: "string option"
  summary :: "string option"
  failure_reason :: "string option"
  created_at :: 't
  last_nudge :: "'t option"
  ready_for_cleanup :: "bool option"

record 't Repository =
  github_url :: string
  tmux_session :: string
  agents :: "(string \<times> 't Agent) list"
  task_history :: "'t TaskHistoryEntry list option"
  merge_queue_config :: "MergeQueueConfig option"
  pr_shepherd_config :: "PRShepherdConfig option"
  fork_config :: "ForkConfig option"
  target_branch :: "string option"

record 't State =
  repos :: "(string \<times> 't Repository) list"
  current_repo :: "string option"

subsection \<open>\<^verbatim>\<open>reference/python/types.py\<close>\<close>

definition ref_MergeQueueConfig_validate ::
  "('f, 'd) library \<Rightarrow> 'f json \<Rightarrow> MergeQueueConfig option" where
  "ref_MergeQueueConfig_validate L j =
     (case j of
        JObject obj \<Rightarrow> do {
          e \<leftarrow> required (v_bool L) obj ''enabled'';
          m \<leftarrow> required (v_literal TrackMode) obj ''track_mode'';
          Some \<lparr>mq_enabled = e, mq_track_mode = m\<rparr>
        }
      | _ \<Rightarrow> None)"

definition ref_PRShepherdConfig_validate ::
  "('f, 'd) library \<Rightarrow> 'f json \<Rightarrow> PRShepherdConfig option" where
  "ref_PRShepherdConfig_validate L j =
     (case j of
        JObject obj \<Rightarrow> do {
          e \<leftarrow> required (v_bool L) obj ''enabled'';
          m \<leftarrow> required (v_literal TrackMode) obj ''track_mode'';
          Some \<lparr>ps_enabled = e, ps_track_mode = m\<rparr>
        }
      | _ \<Rightarrow> None)"

definition ref_ForkConfig_validate :: "('f, 'd) library \<Rightarrow> 'f json \<Rightarrow> ForkConfig option" where
  "ref_ForkConfig_validate L j =
     (case j of
        JObject obj \<Rightarrow> do {
          f \<leftarrow> required (v_bool L) obj ''is_fork'';
          u \<leftarrow> with_default None (v_optional v_str) obj ''upstream_url'';
          ow \<leftarrow> with_default None (v_optional v_str) obj ''upstream_owner'';
          r \<leftarrow> with_default None (v_optional v_str) obj ''upstream_repo'';
          ff \<leftarrow> with_default None (v_optional (v_bool L)) obj ''force_fork_mode'';
          Some \<lparr>is_fork = f, upstream_url = u, upstream_owner = ow, upstream_repo = r,
                force_fork_mode = ff\<rparr>
        }
      | _ \<Rightarrow> None)"

definition ref_TaskHistoryEntry_validate ::
  "('f, 'd) library \<Rightarrow> 'f json \<Rightarrow> string TaskHistoryEntry option" where
  "ref_TaskHistoryEntry_validate L j =
     (case j of
        JObject obj \<Rightarrow> do {
          n \<leftarrow> required v_str obj ''name'';
          t \<leftarrow> required v_str obj ''task'';
          b \<leftarrow> required v_str obj ''branch'';
          u \<leftarrow> with_default None (v_optional v_str) obj ''pr_url'';
          pn \<leftarrow> with_default None (v_optional (v_int L)) obj ''pr_number'';
          st \<leftarrow> required (v_literal TaskStatus) obj ''status'';
          su \<leftarrow> with_default None (v_optional v_str) obj ''summary'';
          fr \<leftarrow> with_default None (v_optional v_str) obj ''failure_reason'';
          c \<leftarrow> required v_str obj ''created_at'';
          co \<leftarrow> with_default None (v_optional v_str) obj ''completed_at'';
          Some \<lparr>th_name = n, th_task = t, th_branch = b, th_pr_url = u, th_pr_number = pn,
                th_status = st, th_summary = su, th_failure_reason = fr, th_created_at = c,
                th_completed_at = co\<rparr>
        }
      | _ \<Rightarrow> None)"

definition ref_Agent_validate :: "('f, 'd) library \<Rightarrow> 'f json \<Rightarrow> string Agent option" where
  "ref_Agent_validate L j =
     (case j of
        JObject obj \<Rightarrow> do {
          ty \<leftarrow> required (v_literal AgentType) obj ''type'';
          w \<leftarrow> required v_str obj ''worktree_path'';
          tw \<leftarrow> required v_str obj ''tmux_window'';
          s \<leftarrow> required v_str obj ''session_id'';
          p \<leftarrow> required (v_int L) obj ''pid'';
          t \<leftarrow> with_default None (v_optional v_str) obj ''task'';
          su \<leftarrow> with_default None (v_optional v_str) obj ''summary'';
          fr \<leftarrow> with_default None (v_optional v_str) obj ''failure_reason'';
          c \<leftarrow> required v_str obj ''created_at'';
          ln \<leftarrow> with_default None (v_optional v_str) obj ''last_nudge'';
          rc \<leftarrow> with_default None (v_optional (v_bool L)) obj ''ready_for_cleanup'';
          Some \<lparr>agent_type = ty, worktree_path = w, tmux_window = tw, session_id = s, pid = p,
                task = t, summary = su, failure_reason = fr, created_at = c, last_nudge = ln,
                ready_for_cleanup = rc\<rparr>
        }
      | _ \<Rightarrow> None)"

definition ref_Repository_validate ::
  "('f, 'd) library \<Rightarrow> 'f json \<Rightarrow> string Repository option" where
  "ref_Repository_validate L j =
     (case j of
        JObject obj \<Rightarrow> do {
          g \<leftarrow> required v_str obj ''github_url'';
          ts \<leftarrow> required v_str obj ''tmux_session'';
          ags \<leftarrow> required (v_dict (ref_Agent_validate L)) obj ''agents'';
          th \<leftarrow> with_default None (v_optional (v_list (ref_TaskHistoryEntry_validate L))) obj
                  ''task_history'';
          mq \<leftarrow> with_default None (v_optional (ref_MergeQueueConfig_validate L)) obj
                  ''merge_queue_config'';
          ps \<leftarrow> with_default None (v_optional (ref_PRShepherdConfig_validate L)) obj
                  ''pr_shepherd_config'';
          fc \<leftarrow> with_default None (v_optional (ref_ForkConfig_validate L)) obj ''fork_config'';
          tb \<leftarrow> with_default None (v_optional v_str) obj ''target_branch'';
          Some \<lparr>github_url = g, tmux_session = ts, agents = ags, task_history = th,
                merge_queue_config = mq, pr_shepherd_config = ps, fork_config = fc,
                target_branch = tb\<rparr>
        }
      | _ \<Rightarrow> None)"

definition ref_State_validate :: "('f, 'd) library \<Rightarrow> 'f json \<Rightarrow> string State option" where
  "ref_State_validate L j =
     (case j of
        JObject obj \<Rightarrow> do {
          rs \<leftarrow> required (v_dict (ref_Repository_validate L)) obj ''repos'';
          cr \<leftarrow> with_default None (v_optional v_str) obj ''current_repo'';
          Some \<lparr>repos = rs, current_repo = cr\<rparr>
        }
      | _ \<Rightarrow> None)"

text \<open>The parsing functions: \<^verbatim>\<open>model_validate\<close>, raising on invalid input.\<close>

definition parse_state :: "('f, 'd) library \<Rightarrow> 'f json \<Rightarrow> exc + string State" where
  "parse_state L data =
     (case ref_State_validate L data of None \<Rightarrow> Inl ValidationError | Some s \<Rightarrow> Inr s)"

definition safe_parse_state :: "('f, 'd) library \<Rightarrow> 'f json \<Rightarrow> string State option" where
  "safe_parse_state L data = (case parse_state L data of Inl e \<Rightarrow> None | Inr s \<Rightarrow> Some s)"

definition parse_repository :: "('f, 'd) library \<Rightarrow> 'f json \<Rightarrow> exc + string Repository" where
  "parse_repository L data =
     (case ref_Repository_validate L data of None \<Rightarrow> Inl ValidationError | Some r \<Rightarrow> Inr r)"

definition parse_agent :: "('f, 'd) library \<Rightarrow> 'f json \<Rightarrow> exc + string Agent" where
  "parse_agent L data =
     (case ref_Agent_validate L data of None \<Rightarrow> Inl ValidationError | Some a \<Rightarrow> Inr a)"

text \<open>
  Serialising the reference models: every field, in the order of declaration, an absent
  optional field as \<^verbatim>\<open>null\<close>.
\<close>

definition MergeQueueConfig_dump :: "MergeQueueConfig \<Rightarrow> 'f json" where
  "MergeQueueConfig_dump c =
     JObject [(''enabled'', JBool (mq_enabled c)), (''track_mode'', JString (mq_track_mode c))]"

definition PRShepherdConfig_dump :: "PRShepherdConfig \<Rightarrow> 'f json" where
  "PRShepherdConfig_dump c =
     JObject [(''enabled'', JBool (ps_enabled c)), (''track_mode'', JString (ps_track_mode c))]"

definition ForkConfig_dump :: "ForkConfig \<Rightarrow> 'f json" where
  "ForkConfig_dump c =
     JObject
       [(''is_fork'', JBool (is_fork c)),
        (''upstream_url'', dump_optional JString (upstream_url c)),
        (''upstream_owner'', dump_optional JString (upstream_owner c)),
        (''upstream_repo'', dump_optional JString (upstream_repo c)),
        (''force_fork_mode'', dump_optional JBool (force_fork_mode c))]"

definition TaskHistoryEntry_dump :: "string TaskHistoryEntry \<Rightarrow> 'f json" where
  "TaskHistoryEntry_dump e =
     JObject
       [(''name'', JString (th_name e)),
        (''task'', JString (th_task e)),
        (''branch'', JString (th_branch e)),
        (''pr_url'', dump_optional JString (th_pr_url e)),
        (''pr_number'', dump_optional JInt (th_pr_number e)),
        (''status'', JString (th_status e)),
        (''summary'', dump_optional JString (th_summary e)),
        (''failure_reason'', dump_optional JString (th_failure_reason e)),
        (''created_at'', JString (th_created_at e)),
        (''completed_at'', dump_optional JString (th_completed_at e))]"

definition Agent_dump :: "string Agent \<Rightarrow> 'f json" where
  "Agent_dump a =
     JObject
       [(''type'', JString (agent_type a)),
        (''worktree_path'', JString (worktree_path a)),
        (''tmux_window'', JString (tmux_window a)),
        (''session_id'', JString (session_id a)),
        (''pid'', JInt (pid a)),
        (''task'', dump_optional JString (task a)),
        (''summary'', dump_optional JString (summary a)),
        (''failure_reason'', dump_optional JString (failure_reason a)),
        (''created_at'', JString (created_at a)),
        (''last_nudge'', dump_optional JString (last_nudge a)),
        (''ready_for_cleanup'', dump_optional JBool (ready_for_cleanup a))]"

definition Repository_dump :: "string Repository \<Rightarrow> 'f json" where
  "Repository_dump r =
     JObject
       [(''github_url'', JString (github_url r)),
        (''tmux_session'', JString (tmux_session r)),
        (''agents'', dump_dict Agent_dump (agents r)),
        (''task_history'', dump_optional (dump_list TaskHistoryEntry_dump) (task_history r)),
        (''merge_queue_config'', dump_optional MergeQueueConfig_dump (merge_queue_config r)),
        (''pr_shepherd_config'', dump_optional PRShepherdConfig_dump (pr_shepherd_config r)),
        (''fork_config'', dump_optional ForkConfig_dump (fork_config r)),
        (''target_branch'', dump_optional JString (target_branch r))]"

definition State_dump :: "string State \<Rightarrow> 'f json" where
  "State_dump s =
     JObject
       [(''repos'', dump_dict Repository_dump (repos s)),
        (''current_repo'', dump_optional JString (current_repo s))]"

subsection \<open>\<^verbatim>\<open>multiclaude_tool/types.py\<close>\<close>

definition tool_MergeQueueConfig_validate ::
  "('f, 'd) library \<Rightarrow> 'f json \<Rightarrow> MergeQueueConfig option" where
  "tool_MergeQueueConfig_validate L j =
     (case j of
        JObject obj \<Rightarrow> do {
          e \<leftarrow> with_default True (v_bool L) obj ''enabled'';
          m \<leftarrow> with_default ''all'' (v_literal TrackMode) obj ''track_mode'';
          Some \<lparr>mq_enabled = e, mq_track_mode = m\<rparr>
        }
      | _ \<Rightarrow> None)"

definition tool_PRShepherdConfig_validate ::
  "('f, 'd) library \<Rightarrow> 'f json \<Rightarrow> PRShepherdConfig option" where
  "tool_PRShepherdConfig_validate L j =
     (case j of
        JObject obj \<Rightarrow> do {
          e \<leftarrow> with_default True (v_bool L) obj ''enabled'';
          m \<leftarrow> with_default ''author'' (v_literal TrackMode) obj ''track_mode'';
          Some \<lparr>ps_enabled = e, ps_track_mode = m\<rparr>
        }
      | _ \<Rightarrow> None)"

definition tool_ForkConfig_validate :: "('f, 'd) library \<Rightarrow> 'f json \<Rightarrow> ForkConfig option" where
  "tool_ForkConfig_validate L j =
     (case j of
        JObject obj \<Rightarrow> do {
          f \<leftarrow> with_default False (v_bool L) obj ''is_fork'';
          u \<leftarrow> with_default None (v_optional v_str) obj ''upstream_url'';
          ow \<leftarrow> with_default None (v_optional v_str) obj ''upstream_owner'';
          r \<leftarrow> with_default None (v_optional v_str) obj ''upstream_repo'';
          ff \<leftarrow> with_default None (v_optional (v_bool L)) obj ''force_fork_mode'';
          Some \<lparr>is_fork = f, upstream_url = u, upstream_owner = ow, upstream_repo = r,
                force_fork_mode = ff\<rparr>
        }
      | _ \<Rightarrow> None)"

definition tool_TaskHistoryEntry_validate ::
  "('f, 'd) library \<Rightarrow> 'f json \<Rightarrow> 'd TaskHistoryEntry option" where
  "tool_TaskHistoryEntry_validate L j =
     (case j of
        JObject obj \<Rightarrow> do {
          n \<leftarrow> required v_str obj ''name'';
          t \<leftarrow> required v_str obj ''task'';
          b \<leftarrow> required v_str obj ''branch'';
          u \<leftarrow> with_default None (v_optional v_str) obj ''pr_url'';
          pn \<leftarrow> with_default None (v_optional (v_int L)) obj ''pr_number'';
          st \<leftarrow> required (v_literal TaskStatus) obj ''status'';
          su \<leftarrow> with_default None (v_optional v_str) obj ''summary'';
          fr \<leftarrow> with_default None (v_optional v_str) obj ''failure_reason'';
          c \<leftarrow> required (v_datetime L) obj ''created_at'';
          co \<leftarrow> with_default None (v_optional (v_datetime L)) obj ''completed_at'';
          Some \<lparr>th_name = n, th_task = t, th_branch = b, th_pr_url = u, th_pr_number = pn,
                th_status = st, th_summary = su, th_failure_reason = fr, th_created_at = c,
                th_completed_at = co\<rparr>
        }
      | _ \<Rightarrow> None)"

definition tool_Agent_validate :: "('f, 'd) library \<Rightarrow> 'f json \<Rightarrow> 'd Agent option" where
  "tool_Agent_validate L j =
     (case j of
        JObject obj \<Rightarrow> do {
          ty \<leftarrow> required (v_literal AgentType) obj ''type'';
          w \<leftarrow> required v_str obj ''worktree_path'';
          tw \<leftarrow> required v_str obj ''tmux_window'';
          s \<leftarrow> required v_str obj ''session_id'';
          p \<leftarrow> with_default 0 (v_int L) obj ''pid'';
          t \<leftarrow> with_default None (v_optional v_str) obj ''task'';
          su \<leftarrow> with_default None (v_optional v_str) obj ''summary'';
          fr \<leftarrow> with_default None (v_optional v_str) obj ''failure_reason'';
          c \<leftarrow> required (v_datetime L) obj ''created_at'';
          ln \<leftarrow> with_default None (v_optional (v_datetime L)) obj ''last_nudge'';
          rc \<leftarrow> with_default None (v_optional (v_bool L)) obj ''ready_for_cleanup'';
          Some \<lparr>agent_type = ty, worktree_path = w, tmux_window = tw, session_id = s, pid = p,
                task = t, summary = su, failure_reason = fr, created_at = c, last_nudge = ln,
                ready_for_cleanup = rc\<rparr>
        }
      | _ \<Rightarrow> None)"

definition tool_Repository_validate ::
  "('f, 'd) library \<Rightarrow> 'f json \<Rightarrow> 'd Repository option" where
  "tool_Repository_validate L j =
     (case j of
        JObject obj \<Rightarrow> do {
          g \<leftarrow> required v_str obj ''github_url'';
          ts \<leftarrow> required v_str obj ''tmux_session'';
          ags \<leftarrow> with_default [] (v_dict (tool_Agent_validate L)) obj ''agents'';
          th \<leftarrow> with_default None (v_optional (v_list (tool_TaskHistoryEntry_validate L))) obj
                  ''task_history'';
          mq \<leftarrow> with_default None (v_optional (tool_MergeQueueConfig_validate L)) obj
                  ''merge_queue_config'';
          ps \<leftarrow> with_default None (v_optional (tool_PRShepherdConfig_validate L)) obj
                  ''pr_shepherd_config'';
          fc \<leftarrow> with_default None (v_optional (tool_ForkConfig_validate L)) obj ''fork_config'';
          tb \<leftarrow> with_default None (v_optional v_str) obj ''target_branch'';
          Some \<lparr>github_url = g, tmux_session = ts, agents = ags, task_history = th,
                merge_queue_config = mq, pr_shepherd_config = ps, fork_config = fc,
                target_branch = tb\<rparr>
        }
      | _ \<Rightarrow> None)"

definition tool_State_validate :: "('f, 'd) library \<Rightarrow> 'f json \<Rightarrow> 'd State option" where
  "tool_State_validate L j =
     (case j of
        JObject obj \<Rightarrow> do {
          rs \<leftarrow> with_default [] (v_dict (tool_Repository_validate L)) obj ''repos'';
          cr \<leftarrow> with_default None (v_optional v_str) obj ''current_repo'';
          Some \<lparr>repos = rs, current_repo = cr\<rparr>
        }
      | _ \<Rightarrow> None)"

text \<open>The socket API models of the tool.\<close>

record 'f SocketRequest =
  command :: string
  args :: "(string \<times> 'f json) list option"

record 'f SocketResponse =
  success :: bool
  data :: "'f json"
  error :: "string option"

record DaemonStatus =
  ds_running :: bool
  ds_pid :: int
  ds_repos :: int
  ds_agents :: int
  ds_socket_path :: string

text \<open>\<^verbatim>\<open>data: Any | None = None\<close> takes any value as it is; \<^verbatim>\<open>None\<close> is \<open>JNull\<close>.\<close>

definition SocketResponse_validate ::
  "('f, 'd) library \<Rightarrow> 'f json \<Rightarrow> 'f SocketResponse option" where
  "SocketResponse_validate L j =
     (case j of
        JObject obj \<Rightarrow> do {
          s \<leftarrow> required (v_bool L) obj ''success'';
          d \<leftarrow> with_default JNull Some obj ''data'';
          e \<leftarrow> with_default None (v_optional v_str) obj ''error'';
          Some \<lparr>success = s, data = d, error = e\<rparr>
        }
      | _ \<Rightarrow> None)"

definition DaemonStatus_validate :: "('f, 'd) library \<Rightarrow> 'f json \<Rightarrow> DaemonStatus option" where
  "DaemonStatus_validate L j =
     (case j of
        JObject obj \<Rightarrow> do {
          r \<leftarrow> required (v_bool L) obj ''running'';
          p \<leftarrow> required (v_int L) obj ''pid'';
          rs \<leftarrow> required (v_int L) obj ''repos'';
          ags \<leftarrow> required (v_int L) obj ''agents'';
          sp \<leftarrow> required v_str obj ''socket_path'';
          Some \<lparr>ds_running = r, ds_pid = p, ds_repos = rs, ds_agents = ags, ds_socket_path = sp\<rparr>
        }
      | _ \<Rightarrow> None)"

text \<open>\<^verbatim>\<open>Model.model_validate(data)\<close> as a call that returns or raises.\<close>

definition model_validate :: "('f json \<Rightarrow> 'a option) \<Rightarrow> 'f json \<Rightarrow> exc + 'a" where
  "model_validate v j = (case v j of None \<Rightarrow> Inl ValidationError | Some x \<Rightarrow> Inr x)"

section \<open>\<^verbatim>\<open>multiclaude_tool/state.py\<close>\<close>

text \<open>
  The file system, as the reader sees it. At a path there is no file; or \<^verbatim>\<open>stat\<close> fails
  on the path; or there is a file that \<^verbatim>\<open>read_text\<close> cannot read (it raises the given
  exception, an \<^verbatim>\<open>OSError\<close> or a \<^verbatim>\<open>UnicodeDecodeError\<close>); or a text on which \<^verbatim>\<open>json.loads\<close>
  raises \<^verbatim>\<open>JSONDecodeError\<close>; or a text on which \<^verbatim>\<open>json.loads\<close> raises another exception
  (\<^verbatim>\<open>RecursionError\<close>, the \<^verbatim>\<open>ValueError\<close> of the limit on the digits of an integer); or a
  JSON document. The reader holds its \<^verbatim>\<open>state_path\<close>, a \<^verbatim>\<open>Path\<close>; the functions take it
  as it is held.
\<close>

datatype 'f state_file =
    Absent
  | Inaccessible
  | Unreadable exc
  | NotJSON
  | Unloadable exc
  | Document "'f json"

definition stat_of :: "'f state_file \<Rightarrow> stat_result" where
  "stat_of f = (case f of Absent \<Rightarrow> NoEntry | Inaccessible \<Rightarrow> StatFails | _ \<Rightarrow> Found)"

definition StateReader_exists :: "(string \<Rightarrow> 'f state_file) \<Rightarrow> string \<Rightarrow> exc + bool" where
  "StateReader_exists fs state_path = Path_exists (stat_of (fs state_path))"

text \<open>
  \<^verbatim>\<open>read\<close>. The call of \<^verbatim>\<open>exists()\<close> stands before the \<^verbatim>\<open>try\<close> block, so what it raises
  is not caught. In the block, \<^verbatim>\<open>json.JSONDecodeError\<close> becomes the "Invalid JSON"
  \<^verbatim>\<open>StateError\<close>, every other exception the "Failed to parse" one. The text of the
  caught exception, which the message ends with, is left out.
\<close>

definition StateReader_read ::
  "('f, 'd) library \<Rightarrow> (string \<Rightarrow> 'f state_file) \<Rightarrow> string \<Rightarrow> exc + 'd State" where
  "StateReader_read L fs state_path =
     bind_exc (StateReader_exists fs state_path) (\<lambda>found.
       if \<not> found then Inl (StateError (StateFileNotFound state_path))
       else
         (case fs state_path of
            Absent \<Rightarrow> Inl (StateError FailedToParse)
          | Inaccessible \<Rightarrow> Inl (StateError FailedToParse)
          | Unreadable e \<Rightarrow> Inl (StateError FailedToParse)
          | NotJSON \<Rightarrow> Inl (StateError InvalidJSON)
          | Unloadable e \<Rightarrow> Inl (StateError FailedToParse)
          | Document d \<Rightarrow>
              (case model_validate (tool_State_validate L) d of
                 Inl e \<Rightarrow> Inl (StateError FailedToParse)
               | Inr s \<Rightarrow> Inr s)))"

text \<open>\<^verbatim>\<open>State()\<close>: the model built from no field at all.\<close>

definition State_new :: "('f, 'd) library \<Rightarrow> exc + 'd State" where
  "State_new L = model_validate (tool_State_validate L) (JObject [])"

definition StateReader_read_or_empty ::
  "('f, 'd) library \<Rightarrow> (string \<Rightarrow> 'f state_file) \<Rightarrow> string \<Rightarrow> exc + 'd State" where
  "StateReader_read_or_empty L fs state_path =
     bind_exc (StateReader_exists fs state_path) (\<lambda>found.
       if \<not> found then State_new L else StateReader_read L fs state_path)"

text \<open>
  \<^verbatim>\<open>StateWatcher._read_state\<close>, on the file as it is when the watcher reads it: no
  \<^verbatim>\<open>try\<close>, every exception goes to the caller. \<^verbatim>\<open>__next__\<close> returns and \<^verbatim>\<open>__aiter__\<close>
  yields only what this function has returned.
\<close>

definition StateWatcher_read_state :: "('f, 'd) library \<Rightarrow> 'f state_file \<Rightarrow> exc + 'd State" where
  "StateWatcher_read_state L f =
     (case f of
        Absent \<Rightarrow> Inl OSError
      | Inaccessible \<Rightarrow> Inl OSError
      | Unreadable e \<Rightarrow> Inl e
      | NotJSON \<Rightarrow> Inl JSONDecodeError
      | Unloadable e \<Rightarrow> Inl e
      | Document d \<Rightarrow> model_validate (tool_State_validate L) d)"

definition get_current_repo :: "'d State \<Rightarrow> string option" where
  "get_current_repo state = current_repo state"

text \<open>
  \<^verbatim>\<open>get_active_workers\<close>: two nested loops over \<^verbatim>\<open>items()\<close>, appending to \<^verbatim>\<open>workers\<close>.
  The dict appended is a record of its four keys.
\<close>

record 'd worker =
  w_repo :: string
  w_name :: string
  w_task :: "string option"
  w_created_at :: 'd

definition active_workers_of_repo ::
  "string \<Rightarrow> (string \<times> 'd Agent) list \<Rightarrow> 'd worker list \<Rightarrow> 'd worker list" where
  "active_workers_of_repo repo_name ags workers =
     foldl
       (\<lambda>ws (agent_name, agent).
          if agent_type agent = ''worker'' \<and> pid agent > 0
          then ws @ [\<lparr>w_repo = repo_name, w_name = agent_name, w_task = task agent,
                      w_created_at = created_at agent\<rparr>]
          else ws)
       workers ags"

definition get_active_workers :: "'d State \<Rightarrow> 'd worker list" where
  "get_active_workers state =
     foldl (\<lambda>ws (repo_name, repo). active_workers_of_repo repo_name (agents repo) ws) []
       (repos state)"

section \<open>\<^verbatim>\<open>multiclaude_tool/client.py\<close>\<close>

text \<open>
  What one exchange over the socket comes to, once the socket file is found: an
  \<^verbatim>\<open>OSError\<close> with its text (no listener, a broken connection); a timeout, with the text
  of its exception; bytes that are no UTF-8; no byte at all; nothing but white space; a
  line that is no JSON; a JSON document; or a JSON document on a line longer than the
  limit of an \<^verbatim>\<open>asyncio\<close> stream reader (64 KiB), which only the asynchronous client
  minds. The daemon is a function from the request to that outcome. The client holds its \<^verbatim>\<open>socket_path\<close>, a \<^verbatim>\<open>Path\<close>; the functions take it as
  it is held.
\<close>

datatype 'f wire =
    WireOSError string
  | WireTimeout string
  | WireUndecodable
  | WireEmpty
  | WireBlank
  | WireNotJSON
  | WireDocument "'f json"
  | WireLongDocument "'f json"

record 'f daemon =
  socket_stat :: stat_result
  exchange :: "'f SocketRequest \<Rightarrow> 'f wire"

text \<open>
  \<^verbatim>\<open>_send_request\<close>. The call of \<^verbatim>\<open>exists()\<close> stands before the \<^verbatim>\<open>try\<close> block. A timeout
  of the socket is an \<^verbatim>\<open>OSError\<close>. \<^verbatim>\<open>model_validate_json\<close> raises \<^verbatim>\<open>ValidationError\<close> on a
  text that is no JSON as well; only \<^verbatim>\<open>OSError\<close> is turned into \<^verbatim>\<open>DaemonError\<close>.
\<close>

definition send_request ::
  "('f, 'd) library \<Rightarrow> 'f daemon \<Rightarrow> string \<Rightarrow> string \<Rightarrow> (string \<times> 'f json) list option \<Rightarrow>
   exc + 'f SocketResponse" where
  "send_request L D socket_path cmd as =
     bind_exc (Path_exists (socket_stat D)) (\<lambda>found.
       if \<not> found then Inl (DaemonError (''Socket not found: '' @ socket_path))
       else
         (case exchange D \<lparr>command = cmd, args = as\<rparr> of
            WireOSError e \<Rightarrow> Inl (DaemonError (''Socket error: '' @ e))
          | WireTimeout e \<Rightarrow> Inl (DaemonError (''Socket error: '' @ e))
          | WireUndecodable \<Rightarrow> Inl UnicodeDecodeError
          | WireEmpty \<Rightarrow> Inl (DaemonError ''Empty response from daemon'')
          | WireBlank \<Rightarrow> Inl (DaemonError ''Empty response from daemon'')
          | WireNotJSON \<Rightarrow> Inl ValidationError
          | WireDocument d \<Rightarrow> model_validate (SocketResponse_validate L) d
          | WireLongDocument d \<Rightarrow> model_validate (SocketResponse_validate L) d))"

text \<open>\<^verbatim>\<open>response.error or "Unknown error"\<close>: \<^verbatim>\<open>None\<close> and the empty string are false.\<close>

definition error_or_unknown :: "'f SocketResponse \<Rightarrow> string" where
  "error_or_unknown response =
     (case error response of
        None \<Rightarrow> ''Unknown error''
      | Some e \<Rightarrow> if e = [] then ''Unknown error'' else e)"

definition require_success :: "'f SocketResponse \<Rightarrow> exc + 'f json" where
  "require_success response =
     (if \<not> success response then Inl (DaemonError (error_or_unknown response))
      else Inr (data response))"

definition ping :: "('f, 'd) library \<Rightarrow> 'f daemon \<Rightarrow> string \<Rightarrow> exc + bool" where
  "ping L D socket_path =
     (case send_request L D socket_path ''ping'' None of
        Inr response \<Rightarrow> Inr (success response)
      | Inl (DaemonError m) \<Rightarrow> Inr False
      | Inl e \<Rightarrow> Inl e)"

definition status :: "('f, 'd) library \<Rightarrow> 'f daemon \<Rightarrow> string \<Rightarrow> exc + DaemonStatus" where
  "status L D socket_path =
     bind_exc (send_request L D socket_path ''status'' None) (\<lambda>response.
     bind_exc (require_success response) (\<lambda>d.
     model_validate (DaemonStatus_validate L) d))"

definition get_state :: "('f, 'd) library \<Rightarrow> 'f daemon \<Rightarrow> string \<Rightarrow> exc + 'd State" where
  "get_state L D socket_path =
     bind_exc (send_request L D socket_path ''get_state'' None) (\<lambda>response.
     bind_exc (require_success response) (\<lambda>d.
     model_validate (tool_State_validate L) d))"

text \<open>
  \<^verbatim>\<open>AsyncDaemonClient\<close>: the same exchange, awaited. A timeout becomes "Request timed
  out"; the test for an empty response is made on the bytes, before they are stripped;
  \<^verbatim>\<open>readline\<close> raises \<^verbatim>\<open>ValueError\<close> on a line longer than its limit.
\<close>

definition async_send_request ::
  "('f, 'd) library \<Rightarrow> 'f daemon \<Rightarrow> string \<Rightarrow> string \<Rightarrow> (string \<times> 'f json) list option \<Rightarrow>
   exc + 'f SocketResponse" where
  "async_send_request L D socket_path cmd as =
     bind_exc (Path_exists (socket_stat D)) (\<lambda>found.
       if \<not> found then Inl (DaemonError (''Socket not found: '' @ socket_path))
       else
         (case exchange D \<lparr>command = cmd, args = as\<rparr> of
            WireOSError e \<Rightarrow> Inl (DaemonError (''Socket error: '' @ e))
          | WireTimeout e \<Rightarrow> Inl (DaemonError ''Request timed out'')
          | WireUndecodable \<Rightarrow> Inl UnicodeDecodeError
          | WireEmpty \<Rightarrow> Inl (DaemonError ''Empty response from daemon'')
          | WireBlank \<Rightarrow> Inl ValidationError
          | WireNotJSON \<Rightarrow> Inl ValidationError
          | WireDocument d \<Rightarrow> model_validate (SocketResponse_validate L) d
          | WireLongDocument d \<Rightarrow> Inl ValueError))"

definition async_get_state :: "('f, 'd) library \<Rightarrow> 'f daemon \<Rightarrow> string \<Rightarrow> exc + 'd State" where
  "async_get_state L D socket_path =
     bind_exc (async_send_request L D socket_path ''get_state'' None) (\<lambda>response.
     bind_exc (require_success response) (\<lambda>d.
     model_validate (tool_State_validate L) d))"

definition get_repo ::
  "('f, 'd) library \<Rightarrow> 'f daemon \<Rightarrow> string \<Rightarrow> string \<Rightarrow> exc + 'd Repository" where
  "get_repo L D socket_path name =
     bind_exc (send_request L D socket_path ''get_repo'' (Some [(''name'', JString name)]))
       (\<lambda>response.
     bind_exc (require_success response) (\<lambda>d.
     model_validate (tool_Repository_validate L) d))"

text \<open>
  The builtins on JSON values: \<^verbatim>\<open>str(x)\<close>, the truth value of \<^verbatim>\<open>x\<close>, iterating over \<^verbatim>\<open>x\<close>,
  and \<^verbatim>\<open>x.get(key, default)\<close>, which only a dict has.
\<close>

definition py_str :: "('f, 'd) library \<Rightarrow> 'f json \<Rightarrow> string" where
  "py_str L x =
     (case x of
        JString s \<Rightarrow> s
      | JNull \<Rightarrow> ''None''
      | JBool b \<Rightarrow> if b then ''True'' else ''False''
      | _ \<Rightarrow> str_other L x)"

definition py_bool :: "('f, 'd) library \<Rightarrow> 'f json \<Rightarrow> bool" where
  "py_bool L x =
     (case x of
        JNull \<Rightarrow> False
      | JBool b \<Rightarrow> b
      | JInt i \<Rightarrow> i \<noteq> 0
      | JFloat f \<Rightarrow> float_bool L f
      | JString s \<Rightarrow> s \<noteq> []
      | JArray xs \<Rightarrow> xs \<noteq> []
      | JObject kvs \<Rightarrow> kvs \<noteq> [])"

definition py_iter :: "'f json \<Rightarrow> exc + 'f json list" where
  "py_iter x =
     (case x of
        JArray xs \<Rightarrow> Inr xs
      | JObject kvs \<Rightarrow> Inr (map (\<lambda>kv. JString (fst kv)) kvs)
      | JString s \<Rightarrow> Inr (map (\<lambda>c. JString [c]) s)
      | _ \<Rightarrow> Inl TypeError)"

definition py_get :: "'f json \<Rightarrow> string \<Rightarrow> 'f json \<Rightarrow> exc + 'f json" where
  "py_get x key dflt =
     (case x of
        JObject kvs \<Rightarrow> Inr (case map_of kvs key of None \<Rightarrow> dflt | Some v \<Rightarrow> v)
      | _ \<Rightarrow> Inl AttributeError)"

text \<open>\<^verbatim>\<open>if repo:\<close> on a \<^verbatim>\<open>str | None\<close>, \<^verbatim>\<open>if limit:\<close> on an \<^verbatim>\<open>int | None\<close>.\<close>

definition set_if_str ::
  "string \<Rightarrow> string option \<Rightarrow> (string \<times> 'f json) list \<Rightarrow> (string \<times> 'f json) list" where
  "set_if_str key x as =
     (case x of None \<Rightarrow> as | Some s \<Rightarrow> if s = [] then as else dict_setitem as key (JString s))"

definition set_if_int ::
  "string \<Rightarrow> int option \<Rightarrow> (string \<times> 'f json) list \<Rightarrow> (string \<times> 'f json) list" where
  "set_if_int key x as =
     (case x of None \<Rightarrow> as | Some i \<Rightarrow> if i = 0 then as else dict_setitem as key (JInt i))"

definition spawn_worker_args ::
  "string \<Rightarrow> string option \<Rightarrow> string option \<Rightarrow> string option \<Rightarrow> (string \<times> 'f json) list" where
  "spawn_worker_args task_text repo branch push_to =
     set_if_str ''push_to'' push_to
       (set_if_str ''branch'' branch
          (set_if_str ''repo'' repo [(''task'', JString task_text)]))"

definition spawn_worker ::
  "('f, 'd) library \<Rightarrow> 'f daemon \<Rightarrow> string \<Rightarrow> string \<Rightarrow> string option \<Rightarrow> string option \<Rightarrow>
   string option \<Rightarrow> exc + string" where
  "spawn_worker L D socket_path task_text repo branch push_to =
     bind_exc
       (send_request L D socket_path ''spawn_worker''
          (Some (spawn_worker_args task_text repo branch push_to)))
       (\<lambda>response.
     bind_exc (require_success response) (\<lambda>d.
     bind_exc (py_get d ''name'' (JString [])) (\<lambda>name.
     Inr (py_str L name))))"

definition task_history_args ::
  "string option \<Rightarrow> int option \<Rightarrow> string option \<Rightarrow> (string \<times> 'f json) list" where
  "task_history_args repo limit st =
     set_if_str ''status'' st (set_if_int ''limit'' limit (set_if_str ''repo'' repo []))"

fun validate_entries ::
  "('f, 'd) library \<Rightarrow> 'f json list \<Rightarrow> exc + 'd TaskHistoryEntry list" where
  "validate_entries L [] = Inr []"
| "validate_entries L (entry # entries) =
     bind_exc (model_validate (tool_TaskHistoryEntry_validate L) entry) (\<lambda>e.
     bind_exc (validate_entries L entries) (\<lambda>es. Inr (e # es)))"

definition client_task_history ::
  "('f, 'd) library \<Rightarrow> 'f daemon \<Rightarrow> string \<Rightarrow> string option \<Rightarrow> int option \<Rightarrow> string option \<Rightarrow>
   exc + 'd TaskHistoryEntry list" where
  "client_task_history L D socket_path repo limit st =
     bind_exc
       (send_request L D socket_path ''task_history''
          (let as = task_history_args repo limit st in if as = [] then None else Some as))
       (\<lambda>response.
     bind_exc (require_success response) (\<lambda>d.
     bind_exc (py_iter (if py_bool L d then d else JArray [])) (\<lambda>entries.
     validate_entries L entries)))"

definition send_message ::
  "('f, 'd) library \<Rightarrow> 'f daemon \<Rightarrow> string \<Rightarrow> string \<Rightarrow> string \<Rightarrow> string \<Rightarrow> exc + string" where
  "send_message L D socket_path to body from_agent =
     bind_exc
       (send_request L D socket_path ''send_message''
          (Some [(''to'', JString to), (''body'', JString body), (''from'', JString from_agent)]))
       (\<lambda>response.
     bind_exc (require_success response) (\<lambda>d.
     bind_exc (py_get d ''id'' (JString [])) (\<lambda>i.
     Inr (py_str L i))))"

section \<open>Notions the properties are stated with\<close>

text \<open>
  A valid in-memory value: what the field types say. A \<^verbatim>\<open>Literal\<close> field holds one of
  its strings, and the keys of a \<^verbatim>\<open>dict\<close> are pairwise different.
\<close>

definition valid_MergeQueueConfig :: "MergeQueueConfig \<Rightarrow> bool" where
  "valid_MergeQueueConfig c = (mq_track_mode c \<in> set TrackMode)"

definition valid_PRShepherdConfig :: "PRShepherdConfig \<Rightarrow> bool" where
  "valid_PRShepherdConfig c = (ps_track_mode c \<in> set TrackMode)"

definition valid_TaskHistoryEntry :: "'t TaskHistoryEntry \<Rightarrow> bool" where
  "valid_TaskHistoryEntry e = (th_status e \<in> set TaskStatus)"

definition valid_Agent :: "'t Agent \<Rightarrow> bool" where
  "valid_Agent a = (agent_type a \<in> set AgentType)"

definition valid_Repository :: "'t Repository \<Rightarrow> bool" where
  "valid_Repository r =
     (distinct (map fst (agents r))
      \<and> list_all (valid_Agent \<circ> snd) (agents r)
      \<and> (case task_history r of None \<Rightarrow> True | Some es \<Rightarrow> list_all valid_TaskHistoryEntry es)
      \<and> (case merge_queue_config r of None \<Rightarrow> True | Some c \<Rightarrow> valid_MergeQueueConfig c)
      \<and> (case pr_shepherd_config r of None \<Rightarrow> True | Some c \<Rightarrow> valid_PRShepherdConfig c))"

definition valid_State :: "'t State \<Rightarrow> bool" where
  "valid_State s =
     (distinct (map fst (repos s)) \<and> list_all (valid_Repository \<circ> snd) (repos s))"

text \<open>The uniqueness of names: of the repositories, and of the agents of each.\<close>

definition unique_names :: "'t State \<Rightarrow> bool" where
  "unique_names s =
     (distinct (map fst (repos s))
      \<and> list_all (\<lambda>(name, r). distinct (map fst (agents r))) (repos s))"

text \<open>
  A value of a reference model read as a value of the tool's model of the same name:
  every timestamp string goes through the tool's \<^verbatim>\<open>datetime\<close> validation, every other
  field is kept. The result is \<open>None\<close> when a timestamp is refused.
\<close>

definition optional_convert :: "('a \<Rightarrow> 'b option) \<Rightarrow> 'a option \<Rightarrow> 'b option option" where
  "optional_convert c x = (case x of None \<Rightarrow> Some None | Some y \<Rightarrow> map_option Some (c y))"

fun dict_convert :: "('a \<Rightarrow> 'b option) \<Rightarrow> (string \<times> 'a) list \<Rightarrow> (string \<times> 'b) list option" where
  "dict_convert c [] = Some []"
| "dict_convert c ((k, y) # d) =
     (case c y of None \<Rightarrow> None | Some z \<Rightarrow> map_option ((#) (k, z)) (dict_convert c d))"

definition str_as_datetime :: "('f, 'd) library \<Rightarrow> string \<Rightarrow> 'd option" where
  "str_as_datetime L s = v_datetime L (JString s)"

definition TaskHistoryEntry_as_tool ::
  "('f, 'd) library \<Rightarrow> string TaskHistoryEntry \<Rightarrow> 'd TaskHistoryEntry option" where
  "TaskHistoryEntry_as_tool L e = do {
     c \<leftarrow> str_as_datetime L (th_created_at e);
     co \<leftarrow> optional_convert (str_as_datetime L) (th_completed_at e);
     Some \<lparr>th_name = th_name e, th_task = th_task e, th_branch = th_branch e,
           th_pr_url = th_pr_url e, th_pr_number = th_pr_number e, th_status = th_status e,
           th_summary = th_summary e, th_failure_reason = th_failure_reason e,
           th_created_at = c, th_completed_at = co\<rparr>
   }"

definition Agent_as_tool :: "('f, 'd) library \<Rightarrow> string Agent \<Rightarrow> 'd Agent option" where
  "Agent_as_tool L a = do {
     c \<leftarrow> str_as_datetime L (created_at a);
     ln \<leftarrow> optional_convert (str_as_datetime L) (last_nudge a);
     Some \<lparr>agent_type = agent_type a, worktree_path = worktree_path a,
           tmux_window = tmux_window a, session_id = session_id a, pid = pid a, task = task a,
           summary = summary a, failure_reason = failure_reason a, created_at = c,
           last_nudge = ln, ready_for_cleanup = ready_for_cleanup a\<rparr>
   }"

definition Repository_as_tool ::
  "('f, 'd) library \<Rightarrow> string Repository \<Rightarrow> 'd Repository option" where
  "Repository_as_tool L r = do {
     ags \<leftarrow> dict_convert (Agent_as_tool L) (agents r);
     th \<leftarrow> optional_convert (list_items (TaskHistoryEntry_as_tool L)) (task_history r);
     Some \<lparr>github_url = github_url r, tmux_session = tmux_session r, agents = ags,
           task_history = th, merge_queue_config = merge_queue_config r,
           pr_shepherd_config = pr_shepherd_config r, fork_config = fork_config r,
           target_branch = target_branch r\<rparr>
   }"

definition State_as_tool :: "('f, 'd) library \<Rightarrow> string State \<Rightarrow> 'd State option" where
  "State_as_tool L s = do {
     rs \<leftarrow> dict_convert (Repository_as_tool L) (repos s);
     Some \<lparr>repos = rs, current_repo = current_repo s\<rparr>
   }"














section \<open>Example values\<close>

text \<open>
  A library that coerces nothing and takes for a datetime a string of 20 characters, and
  the integer 0 (the epoch, as seconds).
\<close>

definition example_library :: "(unit, string) library" where
  "example_library =
     \<lparr>int_lax = (\<lambda>j. None),
      bool_lax = (\<lambda>j. None),
      datetime_validate =
        (\<lambda>j. case j of
               JString s \<Rightarrow> if length s = 20 then Some s else None
             | JInt n \<Rightarrow> if n = 0 then Some ''1970-01-01T00:00:00Z'' else None
             | _ \<Rightarrow> None),
      float_bool = (\<lambda>f. True),
      str_other = (\<lambda>j. ''?'')\<rparr>"

text \<open>A running worker, every optional field absent, in a repository and a state with every optional field absent.\<close>

definition example_agent :: "string Agent" where
  "example_agent =
     \<lparr>agent_type = ''worker'', worktree_path = ''/tmp/wt'', tmux_window = ''mc-repo:clever-fox'',
      session_id = ''session-1'', pid = 12345, task = None, summary = None,
      failure_reason = None, created_at = ''2024-01-15T10:30:00Z'', last_nudge = None,
      ready_for_cleanup = None\<rparr>"

definition example_repository :: "string Repository" where
  "example_repository =
     \<lparr>github_url = ''https://github.com/user/repo'', tmux_session = ''mc-repo'',
      agents = [(''clever-fox'', example_agent)], task_history = None,
      merge_queue_config = None, pr_shepherd_config = None, fork_config = None,
      target_branch = None\<rparr>"

definition example_state :: "string State" where
  "example_state = \<lparr>repos = [(''my-repo'', example_repository)], current_repo = None\<rparr>"






text \<open>The fields of an agent as the daemon writes them, with a given type.\<close>

definition example_agent_fields :: "string \<Rightarrow> (string \<times> unit json) list" where
  "example_agent_fields ty =
     [(''type'', JString ty),
      (''worktree_path'', JString ''/tmp/wt''),
      (''tmux_window'', JString ''mc-repo:clever-fox''),
      (''session_id'', JString ''session-1''),
      (''pid'', JInt 12345),
      (''created_at'', JString ''2024-01-15T10:30:00Z'')]"

text \<open>Two repositories, with a running worker each, a worker that is not running and a supervisor.\<close>

definition example_fleet :: "string State" where
  "example_fleet =
     \<lparr>repos =
        [(''my-repo'',
          example_repository
            \<lparr>agents :=
               [(''clever-fox'', example_agent),
                (''idle-owl'', example_agent\<lparr>pid := 0\<rparr>),
                (''supervisor'', example_agent\<lparr>agent_type := ''supervisor'', pid := 77\<rparr>)]\<rparr>),
         (''other-repo'',
          example_repository
            \<lparr>agents := [(''clever-fox'', example_agent\<lparr>task := Some ''fix bug''\<rparr>)]\<rparr>)],
      current_repo = Some ''my-repo''\<rparr>"

definition example_path :: string where
  "example_path = ''/home/user/.multiclaude/state.json''"

definition example_socket :: string where
  "example_socket = ''/home/user/.multiclaude/daemon.sock''"

text \<open>
  A file system on which \<^verbatim>\<open>stat\<close> fails for every path of more than 255 characters, with
  a file that is no JSON, one nested too deeply for \<^verbatim>\<open>json.loads\<close>, one that is a JSON
  list, one that cannot be read, and one that holds the example fleet.
\<close>

definition long_path :: string where
  "long_path = ''/tmp/'' @ replicate 300 (CHR ''a'') @ ''.json''"


definition example_files :: "string \<Rightarrow> unit state_file" where
  "example_files p =
     (if length p > 255 then Inaccessible
      else if p = ''/tmp/garbage.json'' then NotJSON
      else if p = ''/tmp/deep.json'' then Unloadable RecursionError
      else if p = ''/tmp/list.json'' then Document (JArray [])
      else if p = ''/tmp/secret.json'' then Unreadable OSError
      else if p = ''/tmp/fleet.json'' then Document (State_dump example_fleet)
      else Absent)"

text \<open>
  Daemons: one that answers every request with the example fleet, one whose socket file
  does not exist, one that refuses every request with a message, one that answers with a
  given dict, and one whose socket path is too long for \<^verbatim>\<open>stat\<close>.
\<close>

definition state_daemon :: "unit daemon" where
  "state_daemon =
     \<lparr>socket_stat = Found,
      exchange = (\<lambda>request.
        WireDocument (JObject [(''success'', JBool True), (''data'', State_dump example_fleet)]))\<rparr>"

definition absent_socket :: "unit daemon" where
  "absent_socket =
     \<lparr>socket_stat = NoEntry, exchange = (\<lambda>request. WireOSError ''Connection refused'')\<rparr>"

definition refusing_daemon :: "string \<Rightarrow> unit daemon" where
  "refusing_daemon message =
     \<lparr>socket_stat = Found,
      exchange = (\<lambda>request.
        WireDocument (JObject [(''success'', JBool False), (''error'', JString message)]))\<rparr>"

definition unreachable_socket :: "unit daemon" where
  "unreachable_socket =
     \<lparr>socket_stat = StatFails, exchange = (\<lambda>request. WireOSError ''File name too long'')\<rparr>"

definition spawning_daemon :: "(string \<times> unit json) list \<Rightarrow> unit daemon" where
  "spawning_daemon reply =
     \<lparr>socket_stat = Found,
      exchange = (\<lambda>request.
        WireDocument (JObject [(''success'', JBool True), (''data'', JObject reply)]))\<rparr>"

section \<open>Lemmas on validation\<close>

lemma dict_setitem_set: "set (dict_setitem d k v) \<subseteq> insert (k, v) (set d)"
  by (induction d k v rule: dict_setitem.induct) auto

lemma dict_setitem_keys:
  "map fst (dict_setitem d k v) = (if k \<in> fst ` set d then map fst d else map fst d @ [k])"
  by (induction d k v rule: dict_setitem.induct) auto

lemma dict_setitem_distinct:
  "distinct (map fst d) \<Longrightarrow> distinct (map fst (dict_setitem d k v))"
  by (simp add: dict_setitem_keys)

lemma dict_setitem_fresh: "k \<notin> fst ` set d \<Longrightarrow> dict_setitem d k v = d @ [(k, v)]"
  by (induction d k v rule: dict_setitem.induct) auto

lemma dict_items_distinct:
  "dict_items v out kvs = Some d \<Longrightarrow> distinct (map fst out) \<Longrightarrow> distinct (map fst d)"
proof (induction v out kvs rule: dict_items.induct)
  case (1 v out)
  then show ?case by simp
next
  case (2 v out k x kvs)
  then show ?case
    by (auto split: option.splits intro: dict_setitem_distinct)
qed

lemma dict_items_all:
  "dict_items v out kvs = Some d \<Longrightarrow> list_all (P \<circ> snd) out \<Longrightarrow>
   (\<And>x y. v x = Some y \<Longrightarrow> P y) \<Longrightarrow> list_all (P \<circ> snd) d"
proof (induction v out kvs rule: dict_items.induct)
  case (1 v out)
  then show ?case by simp
next
  case (2 v out k x kvs)
  from "2.prems"(1) obtain y where y: "v x = Some y"
    and rest: "dict_items v (dict_setitem out k y) kvs = Some d"
    by (auto split: option.splits)
  have "P y" using y "2.prems"(3) by blast
  with "2.prems"(2) have "list_all (P \<circ> snd) (dict_setitem out k y)"
    using dict_setitem_set [of out k y] by (auto simp: list_all_iff)
  with "2.IH" [OF y rest] "2.prems"(3) show ?case by blast
qed

lemma dict_items_dump:
  "distinct (map fst (out @ d)) \<Longrightarrow> \<forall>p \<in> set d. v (f (snd p)) = Some (snd p) \<Longrightarrow>
   dict_items v out (map (\<lambda>(k, y). (k, f y)) d) = Some (out @ d)"
proof (induction d arbitrary: out)
  case Nil
  then show ?case by simp
next
  case (Cons p d)
  obtain k y where p: "p = (k, y)" by (cases p)
  have vy: "v (f y) = Some y" using Cons.prems(2) p by simp
  have fresh: "k \<notin> fst ` set out" using Cons.prems(1) p by auto
  have "dict_items v (out @ [(k, y)]) (map (\<lambda>(k, y). (k, f y)) d) = Some ((out @ [(k, y)]) @ d)"
    using Cons.prems p by (intro Cons.IH) auto
  then show ?case using p vy fresh by (simp add: dict_setitem_fresh)
qed

lemma list_items_dump:
  "\<forall>y \<in> set ys. v (f y) = Some y \<Longrightarrow> list_items v (map f ys) = Some ys"
  by (induction ys) auto

lemma v_dict_dump:
  "distinct (map fst d) \<Longrightarrow> \<forall>p \<in> set d. v (f (snd p)) = Some (snd p) \<Longrightarrow>
   v_dict v (dump_dict f d) = Some d"
  using dict_items_dump [of "[]" d v f] by (simp add: v_dict_def dump_dict_def)

lemma v_list_dump:
  "\<forall>y \<in> set ys. v (f y) = Some y \<Longrightarrow> v_list v (dump_list f ys) = Some ys"
  by (simp add: v_list_def dump_list_def list_items_dump)

lemma v_optional_dump:
  "(\<And>y. x = Some y \<Longrightarrow> v (f y) = Some y \<and> f y \<noteq> JNull) \<Longrightarrow>
   v_optional v (dump_optional f x) = Some x"
  by (cases x) (auto simp: v_optional_def dump_optional_def split: json.splits)

lemmas field_defs = required_def with_default_def v_str_def v_int_def v_bool_def v_literal_def
  v_optional_def dump_optional_def

lemma MergeQueueConfig_roundtrip:
  "valid_MergeQueueConfig c \<Longrightarrow> ref_MergeQueueConfig_validate L (MergeQueueConfig_dump c) = Some c"
  by (simp add: ref_MergeQueueConfig_validate_def MergeQueueConfig_dump_def
      valid_MergeQueueConfig_def field_defs)

lemma PRShepherdConfig_roundtrip:
  "valid_PRShepherdConfig c \<Longrightarrow> ref_PRShepherdConfig_validate L (PRShepherdConfig_dump c) = Some c"
  by (simp add: ref_PRShepherdConfig_validate_def PRShepherdConfig_dump_def
      valid_PRShepherdConfig_def field_defs)

lemma ForkConfig_roundtrip:
  "ref_ForkConfig_validate L (ForkConfig_dump c) = Some c"
  by (simp add: ref_ForkConfig_validate_def ForkConfig_dump_def field_defs split: option.splits)

lemma TaskHistoryEntry_roundtrip:
  "valid_TaskHistoryEntry e \<Longrightarrow>
   ref_TaskHistoryEntry_validate L (TaskHistoryEntry_dump e) = Some e"
  by (simp add: ref_TaskHistoryEntry_validate_def TaskHistoryEntry_dump_def
      valid_TaskHistoryEntry_def field_defs split: option.splits)

lemma Agent_roundtrip:
  "valid_Agent a \<Longrightarrow> ref_Agent_validate L (Agent_dump a) = Some a"
  by (simp add: ref_Agent_validate_def Agent_dump_def valid_Agent_def field_defs
      split: option.splits)

lemma dump_not_null [simp]:
  "MergeQueueConfig_dump c \<noteq> JNull" "PRShepherdConfig_dump p \<noteq> JNull"
  "ForkConfig_dump f \<noteq> JNull" "dump_list g xs \<noteq> JNull"
  by (simp_all add: MergeQueueConfig_dump_def PRShepherdConfig_dump_def ForkConfig_dump_def
      dump_list_def)

lemma Repository_roundtrip:
  assumes "valid_Repository r"
  shows "ref_Repository_validate L (Repository_dump r) = Some r"
proof -
  have ags: "v_dict (ref_Agent_validate L) (dump_dict Agent_dump (agents r)) = Some (agents r)"
    using assms by (intro v_dict_dump) (auto simp: valid_Repository_def list_all_iff Agent_roundtrip)
  have th: "v_optional (v_list (ref_TaskHistoryEntry_validate L))
              (dump_optional (dump_list TaskHistoryEntry_dump) (task_history r))
            = Some (task_history r)"
    using assms
    by (intro v_optional_dump)
      (auto simp: valid_Repository_def list_all_iff TaskHistoryEntry_roundtrip
        intro!: v_list_dump)
  have mq: "v_optional (ref_MergeQueueConfig_validate L)
              (dump_optional MergeQueueConfig_dump (merge_queue_config r))
            = Some (merge_queue_config r)"
    using assms
    by (intro v_optional_dump) (auto simp: valid_Repository_def MergeQueueConfig_roundtrip)
  have ps: "v_optional (ref_PRShepherdConfig_validate L)
              (dump_optional PRShepherdConfig_dump (pr_shepherd_config r))
            = Some (pr_shepherd_config r)"
    using assms
    by (intro v_optional_dump) (auto simp: valid_Repository_def PRShepherdConfig_roundtrip)
  have fc: "v_optional (ref_ForkConfig_validate L)
              (dump_optional ForkConfig_dump (fork_config r))
            = Some (fork_config r)"
    by (intro v_optional_dump) (auto simp: ForkConfig_roundtrip)
  have tb: "v_optional v_str (dump_optional JString (target_branch r)) = Some (target_branch r)"
    by (intro v_optional_dump) (auto simp: v_str_def)
  show ?thesis
    by (simp add: ref_Repository_validate_def Repository_dump_def required_def with_default_def
        ags th mq ps fc tb v_str_def)
qed

lemma Repository_dump_object: "Repository_dump r \<noteq> JNull"
  by (simp add: Repository_dump_def)

lemma State_roundtrip:
  assumes "valid_State s"
  shows "ref_State_validate L (State_dump s) = Some s"
proof -
  have rs: "v_dict (ref_Repository_validate L) (dump_dict Repository_dump (repos s)) = Some (repos s)"
    using assms by (intro v_dict_dump) (auto simp: valid_State_def list_all_iff Repository_roundtrip)
  have cr: "v_optional v_str (dump_optional JString (current_repo s)) = Some (current_repo s)"
    by (intro v_optional_dump) (auto simp: v_str_def)
  show ?thesis
    by (simp add: ref_State_validate_def State_dump_def required_def with_default_def rs cr)
qed


lemma v_dict_distinct: "v_dict v j = Some d \<Longrightarrow> distinct (map fst d)"
  by (auto simp: v_dict_def split: json.splits dest: dict_items_distinct)

lemma v_dict_all:
  "v_dict v j = Some d \<Longrightarrow> (\<And>x y. v x = Some y \<Longrightarrow> P y) \<Longrightarrow> list_all (P \<circ> snd) d"
  by (auto simp: v_dict_def split: json.splits dest: dict_items_all [where P = P])

lemma ref_Repository_validate_agents:
  "ref_Repository_validate L j = Some r \<Longrightarrow> distinct (map fst (agents r))"
  by (auto simp: ref_Repository_validate_def required_def bind_eq_Some_conv
      split: json.splits option.splits dest: v_dict_distinct)

lemma ref_State_validate_unique:
  assumes "ref_State_validate L j = Some s"
  shows "unique_names s"
proof -
  from assms obtain x where rs: "v_dict (ref_Repository_validate L) x = Some (repos s)"
    by (auto simp: ref_State_validate_def required_def bind_eq_Some_conv
        split: json.splits option.splits)
  have "distinct (map fst (repos s))" using rs by (rule v_dict_distinct)
  moreover have "list_all ((\<lambda>r. distinct (map fst (agents r))) \<circ> snd) (repos s)"
    using rs by (rule v_dict_all) (rule ref_Repository_validate_agents)
  ultimately show ?thesis
    by (simp add: unique_names_def list_all_iff case_prod_beta)
qed

lemma parse_agent_accepts:
  assumes "parse_agent L (JObject obj) = Inr a"
  shows "\<exists>t \<in> set AgentType. map_of obj ''type'' = Some (JString t) \<and> agent_type a = t"
proof -
  from assms have "ref_Agent_validate L (JObject obj) = Some a"
    by (simp add: parse_agent_def split: option.splits)
  then obtain ty where ty: "required (v_literal AgentType) obj ''type'' = Some ty"
    and a: "agent_type a = ty"
    by (auto simp: ref_Agent_validate_def bind_eq_Some_conv)
  from ty show ?thesis using a
    by (auto simp: required_def v_literal_def split: option.splits json.splits if_splits)
qed

lemma dict_items_fresh:
  "distinct (map fst out @ map fst kvs) \<Longrightarrow>
   dict_items v out kvs = map_option ((@) out) (dict_convert v kvs)"
proof (induction kvs arbitrary: out)
  case Nil
  then show ?case by simp
next
  case (Cons p kvs)
  obtain k x where p: "p = (k, x)" by (cases p)
  show ?case
  proof (cases "v x")
    case None
    then show ?thesis by (simp add: p)
  next
    case (Some y)
    have fresh: "k \<notin> fst ` set out" using Cons.prems p by auto
    have "distinct (map fst (out @ [(k, y)]) @ map fst kvs)" using Cons.prems p by auto
    from Cons.IH [OF this] show ?thesis
      using Some fresh by (simp add: p dict_setitem_fresh option.map_comp comp_def)
  qed
qed

lemma v_dict_fresh:
  "distinct (map fst kvs) \<Longrightarrow> v_dict v (JObject kvs) = dict_convert v kvs"
  using dict_items_fresh [of "[]" kvs v] by (cases "dict_convert v kvs") (simp_all add: v_dict_def)

lemma dict_convert_rel:
  "dict_convert v1 kvs = Some d \<Longrightarrow>
   \<forall>p \<in> set kvs. \<forall>y. v1 (snd p) = Some y \<longrightarrow> v2 (snd p) = c y \<Longrightarrow>
   dict_convert v2 kvs = dict_convert c d"
proof (induction kvs arbitrary: d)
  case Nil
  then show ?case by simp
next
  case (Cons p kvs)
  obtain k x where p: "p = (k, x)" by (cases p)
  from Cons.prems(1) obtain y d' where y: "v1 x = Some y"
    and d': "dict_convert v1 kvs = Some d'" and d: "d = (k, y) # d'"
    by (auto simp: p split: option.splits)
  have "v2 x = c y" using Cons.prems(2) y p by simp
  moreover have "dict_convert v2 kvs = dict_convert c d'"
    using d' Cons.prems(2) by (intro Cons.IH) auto
  ultimately show ?case by (simp add: p d split: option.splits)
qed

lemma list_items_rel:
  "list_items v1 xs = Some ys \<Longrightarrow>
   \<forall>x \<in> set xs. \<forall>y. v1 x = Some y \<longrightarrow> v2 x = c y \<Longrightarrow>
   list_items v2 xs = list_items c ys"
proof (induction xs arbitrary: ys)
  case Nil
  then show ?case by simp
next
  case (Cons x xs)
  from Cons.prems(1) obtain y ys' where y: "v1 x = Some y"
    and ys': "list_items v1 xs = Some ys'" and ys: "ys = y # ys'"
    by (auto split: option.splits)
  have "v2 x = c y" using Cons.prems(2) y by simp
  moreover have "list_items v2 xs = list_items c ys'"
    using ys' Cons.prems(2) by (intro Cons.IH) auto
  ultimately show ?case by (simp add: ys split: option.splits)
qed

lemma v_optional_rel:
  "v_optional v1 x = Some y \<Longrightarrow> (\<And>z. v1 x = Some z \<Longrightarrow> v2 x = c z) \<Longrightarrow>
   v_optional v2 x = optional_convert c y"
  by (cases x) (auto simp: v_optional_def optional_convert_def)

lemma required_rel:
  "required v1 obj k = Some y \<Longrightarrow> (\<And>x. map_of obj k = Some x \<Longrightarrow> v1 x = Some y \<Longrightarrow> v2 x = r) \<Longrightarrow>
   required v2 obj k = r"
  by (auto simp: required_def split: option.splits)

lemma with_default_rel:
  "with_default None v1 obj k = Some y \<Longrightarrow>
   (\<And>x. map_of obj k = Some x \<Longrightarrow> v1 x = Some y \<Longrightarrow> v2 x = r y) \<Longrightarrow> r None = Some None \<Longrightarrow>
   with_default None v2 obj k = r y"
  by (auto simp: with_default_def split: option.splits)

lemma required_with_default:
  "required v obj k = Some y \<Longrightarrow> with_default d v obj k = Some y"
  by (auto simp: required_def with_default_def split: option.splits)

lemma v_str_datetime: "v_str x = Some s \<Longrightarrow> v_datetime L x = str_as_datetime L s"
  by (auto simp: v_str_def str_as_datetime_def split: json.splits)

lemma required_str_datetime:
  "required v_str obj k = Some s \<Longrightarrow> required (v_datetime L) obj k = str_as_datetime L s"
  by (erule required_rel) (rule v_str_datetime)

lemma optional_str_datetime:
  "with_default None (v_optional v_str) obj k = Some ts \<Longrightarrow>
   with_default None (v_optional (v_datetime L)) obj k
   = optional_convert (str_as_datetime L) ts"
  by (erule with_default_rel)
    (auto simp: optional_convert_def intro: v_optional_rel [unfolded optional_convert_def] v_str_datetime)

lemma wf_json_field: "wf_json (JObject obj) \<Longrightarrow> map_of obj k = Some x \<Longrightarrow> wf_json x"
  by (auto dest!: map_of_SomeD)

lemma MergeQueueConfig_refines:
  assumes "ref_MergeQueueConfig_validate L j = Some c"
  shows "tool_MergeQueueConfig_validate L j = Some c"
proof -
  from assms obtain obj where j: "j = JObject obj"
    by (cases j) (simp_all add: ref_MergeQueueConfig_validate_def)
  from assms obtain e m where
    "required (v_bool L) obj ''enabled'' = Some e"
    "required (v_literal TrackMode) obj ''track_mode'' = Some m"
    "c = \<lparr>mq_enabled = e, mq_track_mode = m\<rparr>"
    by (auto simp: j ref_MergeQueueConfig_validate_def bind_eq_Some_conv)
  then show ?thesis
    by (simp add: j tool_MergeQueueConfig_validate_def required_with_default)
qed

lemma PRShepherdConfig_refines:
  assumes "ref_PRShepherdConfig_validate L j = Some c"
  shows "tool_PRShepherdConfig_validate L j = Some c"
proof -
  from assms obtain obj where j: "j = JObject obj"
    by (cases j) (simp_all add: ref_PRShepherdConfig_validate_def)
  from assms obtain e m where
    "required (v_bool L) obj ''enabled'' = Some e"
    "required (v_literal TrackMode) obj ''track_mode'' = Some m"
    "c = \<lparr>ps_enabled = e, ps_track_mode = m\<rparr>"
    by (auto simp: j ref_PRShepherdConfig_validate_def bind_eq_Some_conv)
  then show ?thesis
    by (simp add: j tool_PRShepherdConfig_validate_def required_with_default)
qed

lemma ForkConfig_refines:
  assumes "ref_ForkConfig_validate L j = Some c"
  shows "tool_ForkConfig_validate L j = Some c"
proof -
  from assms obtain obj where j: "j = JObject obj"
    by (cases j) (simp_all add: ref_ForkConfig_validate_def)
  from assms obtain f where
    "required (v_bool L) obj ''is_fork'' = Some f"
    by (auto simp: j ref_ForkConfig_validate_def bind_eq_Some_conv)
  then have "with_default False (v_bool L) obj ''is_fork'' = required (v_bool L) obj ''is_fork''"
    by (simp add: required_with_default)
  with assms show ?thesis
    by (simp add: j tool_ForkConfig_validate_def ref_ForkConfig_validate_def)
qed

lemma TaskHistoryEntry_refines:
  assumes "ref_TaskHistoryEntry_validate L j = Some e"
  shows "tool_TaskHistoryEntry_validate L j = TaskHistoryEntry_as_tool L e"
proof -
  from assms obtain obj where j: "j = JObject obj"
    by (cases j) (simp_all add: ref_TaskHistoryEntry_validate_def)
  from assms obtain n t b u pn st su fr c co where f:
    "required v_str obj ''name'' = Some n"
    "required v_str obj ''task'' = Some t"
    "required v_str obj ''branch'' = Some b"
    "with_default None (v_optional v_str) obj ''pr_url'' = Some u"
    "with_default None (v_optional (v_int L)) obj ''pr_number'' = Some pn"
    "required (v_literal TaskStatus) obj ''status'' = Some st"
    "with_default None (v_optional v_str) obj ''summary'' = Some su"
    "with_default None (v_optional v_str) obj ''failure_reason'' = Some fr"
    "required v_str obj ''created_at'' = Some c"
    "with_default None (v_optional v_str) obj ''completed_at'' = Some co"
    and e: "e = \<lparr>th_name = n, th_task = t, th_branch = b, th_pr_url = u, th_pr_number = pn,
                th_status = st, th_summary = su, th_failure_reason = fr, th_created_at = c,
                th_completed_at = co\<rparr>"
    by (auto simp: j ref_TaskHistoryEntry_validate_def bind_eq_Some_conv)
  show ?thesis
    by (simp add: j tool_TaskHistoryEntry_validate_def TaskHistoryEntry_as_tool_def e f
        required_str_datetime [OF f(9)] optional_str_datetime [OF f(10)])
qed

lemma Agent_refines:
  assumes "ref_Agent_validate L j = Some a"
  shows "tool_Agent_validate L j = Agent_as_tool L a"
proof -
  from assms obtain obj where j: "j = JObject obj"
    by (cases j) (simp_all add: ref_Agent_validate_def)
  from assms obtain ty w tw s p t su fr c ln rc where f:
    "required (v_literal AgentType) obj ''type'' = Some ty"
    "required v_str obj ''worktree_path'' = Some w"
    "required v_str obj ''tmux_window'' = Some tw"
    "required v_str obj ''session_id'' = Some s"
    "required (v_int L) obj ''pid'' = Some p"
    "with_default None (v_optional v_str) obj ''task'' = Some t"
    "with_default None (v_optional v_str) obj ''summary'' = Some su"
    "with_default None (v_optional v_str) obj ''failure_reason'' = Some fr"
    "required v_str obj ''created_at'' = Some c"
    "with_default None (v_optional v_str) obj ''last_nudge'' = Some ln"
    "with_default None (v_optional (v_bool L)) obj ''ready_for_cleanup'' = Some rc"
    and a: "a = \<lparr>agent_type = ty, worktree_path = w, tmux_window = tw, session_id = s, pid = p,
                task = t, summary = su, failure_reason = fr, created_at = c, last_nudge = ln,
                ready_for_cleanup = rc\<rparr>"
    by (auto simp: j ref_Agent_validate_def bind_eq_Some_conv)
  show ?thesis
    by (simp add: j tool_Agent_validate_def Agent_as_tool_def a f
        required_with_default [OF f(5)]
        required_str_datetime [OF f(9)] optional_str_datetime [OF f(10)])
qed

lemma v_dict_rel:
  assumes "wf_json x" and "v_dict v1 x = Some d"
    and "\<And>z y. wf_json z \<Longrightarrow> v1 z = Some y \<Longrightarrow> v2 z = c y"
  shows "v_dict v2 x = dict_convert c d"
proof -
  from assms(2) obtain kvs where x: "x = JObject kvs"
    by (cases x) (simp_all add: v_dict_def)
  from assms(1) have dist: "distinct (map fst kvs)" and wf: "\<forall>p \<in> set kvs. wf_json (snd p)"
    by (simp_all add: x)
  from assms(2) have "dict_convert v1 kvs = Some d"
    by (simp add: x v_dict_fresh [OF dist])
  then have "dict_convert v2 kvs = dict_convert c d"
    using wf assms(3) by (intro dict_convert_rel) auto
  then show ?thesis by (simp add: x v_dict_fresh [OF dist])
qed

lemma v_list_rel:
  assumes "wf_json x" and "v_list v1 x = Some ys"
    and "\<And>z y. wf_json z \<Longrightarrow> v1 z = Some y \<Longrightarrow> v2 z = c y"
  shows "v_list v2 x = list_items c ys"
proof -
  from assms(2) obtain xs where x: "x = JArray xs"
    by (cases x) (simp_all add: v_list_def)
  from assms(1) have wf: "\<forall>z \<in> set xs. wf_json z" by (simp add: x)
  from assms(2) have "list_items v1 xs = Some ys" by (simp add: x v_list_def)
  then have "list_items v2 xs = list_items c ys"
    using wf assms(3) by (intro list_items_rel) auto
  then show ?thesis by (simp add: x v_list_def)
qed

lemma v_optional_same:
  "v_optional v1 x = Some y \<Longrightarrow> (\<And>z. v1 x = Some z \<Longrightarrow> v2 x = Some z) \<Longrightarrow>
   v_optional v2 x = Some y"
  by (cases x) (auto simp: v_optional_def)

lemma with_default_same:
  "with_default None v1 obj k = Some y \<Longrightarrow>
   (\<And>x. map_of obj k = Some x \<Longrightarrow> v1 x = Some y \<Longrightarrow> v2 x = Some y) \<Longrightarrow>
   with_default None v2 obj k = Some y"
  by (auto simp: with_default_def split: option.splits)

lemma Repository_refines:
  assumes wf: "wf_json j" and ref: "ref_Repository_validate L j = Some r"
  shows "tool_Repository_validate L j = Repository_as_tool L r"
proof -
  from ref obtain obj where j: "j = JObject obj"
    by (cases j) (simp_all add: ref_Repository_validate_def)
  from ref obtain g ts ags th mq ps fc tb where f:
    "required v_str obj ''github_url'' = Some g"
    "required v_str obj ''tmux_session'' = Some ts"
    "required (v_dict (ref_Agent_validate L)) obj ''agents'' = Some ags"
    "with_default None (v_optional (v_list (ref_TaskHistoryEntry_validate L))) obj
       ''task_history'' = Some th"
    "with_default None (v_optional (ref_MergeQueueConfig_validate L)) obj
       ''merge_queue_config'' = Some mq"
    "with_default None (v_optional (ref_PRShepherdConfig_validate L)) obj
       ''pr_shepherd_config'' = Some ps"
    "with_default None (v_optional (ref_ForkConfig_validate L)) obj ''fork_config'' = Some fc"
    "with_default None (v_optional v_str) obj ''target_branch'' = Some tb"
    and r: "r = \<lparr>github_url = g, tmux_session = ts, agents = ags, task_history = th,
                merge_queue_config = mq, pr_shepherd_config = ps, fork_config = fc,
                target_branch = tb\<rparr>"
    by (auto simp: j ref_Repository_validate_def bind_eq_Some_conv)
  have wff: "\<And>k x. map_of obj k = Some x \<Longrightarrow> wf_json x"
    using wf unfolding j by (rule wf_json_field)
  have ags: "with_default [] (v_dict (tool_Agent_validate L)) obj ''agents''
             = dict_convert (Agent_as_tool L) ags"
  proof -
    from f(3) obtain x where x: "map_of obj ''agents'' = Some x"
      and v: "v_dict (ref_Agent_validate L) x = Some ags"
      by (auto simp: required_def split: option.splits)
    have "v_dict (tool_Agent_validate L) x = dict_convert (Agent_as_tool L) ags"
      using wff [OF x] v by (rule v_dict_rel) (rule Agent_refines)
    then show ?thesis by (simp add: with_default_def x)
  qed
  have th: "with_default None (v_optional (v_list (tool_TaskHistoryEntry_validate L))) obj
              ''task_history''
            = optional_convert (list_items (TaskHistoryEntry_as_tool L)) th"
  proof (rule with_default_rel [OF f(4)])
    fix x
    assume x: "map_of obj ''task_history'' = Some x"
      and v: "v_optional (v_list (ref_TaskHistoryEntry_validate L)) x = Some th"
    show "v_optional (v_list (tool_TaskHistoryEntry_validate L)) x
          = optional_convert (list_items (TaskHistoryEntry_as_tool L)) th"
      using v
    proof (rule v_optional_rel)
      fix es
      assume "v_list (ref_TaskHistoryEntry_validate L) x = Some es"
      with wff [OF x]
      show "v_list (tool_TaskHistoryEntry_validate L) x
            = list_items (TaskHistoryEntry_as_tool L) es"
        by (rule v_list_rel) (rule TaskHistoryEntry_refines)
    qed
  next
    show "optional_convert (list_items (TaskHistoryEntry_as_tool L)) None = Some None"
      by (simp add: optional_convert_def)
  qed
  have mq: "with_default None (v_optional (tool_MergeQueueConfig_validate L)) obj
              ''merge_queue_config'' = Some mq"
    by (rule with_default_same [OF f(5)]) (erule v_optional_same, erule MergeQueueConfig_refines)
  have ps: "with_default None (v_optional (tool_PRShepherdConfig_validate L)) obj
              ''pr_shepherd_config'' = Some ps"
    by (rule with_default_same [OF f(6)]) (erule v_optional_same, erule PRShepherdConfig_refines)
  have fc: "with_default None (v_optional (tool_ForkConfig_validate L)) obj
              ''fork_config'' = Some fc"
    by (rule with_default_same [OF f(7)]) (erule v_optional_same, erule ForkConfig_refines)
  show ?thesis
    by (simp add: j tool_Repository_validate_def Repository_as_tool_def r f(1,2,8) ags th mq ps fc)
qed

lemma State_refines:
  assumes wf: "wf_json j" and ref: "ref_State_validate L j = Some s"
  shows "tool_State_validate L j = State_as_tool L s"
proof -
  from ref obtain obj where j: "j = JObject obj"
    by (cases j) (simp_all add: ref_State_validate_def)
  from ref obtain rs cr where f:
    "required (v_dict (ref_Repository_validate L)) obj ''repos'' = Some rs"
    "with_default None (v_optional v_str) obj ''current_repo'' = Some cr"
    and s: "s = \<lparr>repos = rs, current_repo = cr\<rparr>"
    by (auto simp: j ref_State_validate_def bind_eq_Some_conv)
  have wff: "\<And>k x. map_of obj k = Some x \<Longrightarrow> wf_json x"
    using wf unfolding j by (rule wf_json_field)
  have rs: "with_default [] (v_dict (tool_Repository_validate L)) obj ''repos''
             = dict_convert (Repository_as_tool L) rs"
  proof -
    from f(1) obtain x where x: "map_of obj ''repos'' = Some x"
      and v: "v_dict (ref_Repository_validate L) x = Some rs"
      by (auto simp: required_def split: option.splits)
    have "v_dict (tool_Repository_validate L) x = dict_convert (Repository_as_tool L) rs"
      using wff [OF x] v by (rule v_dict_rel) (rule Repository_refines)
    then show ?thesis by (simp add: with_default_def x)
  qed
  show ?thesis
    by (simp add: j tool_State_validate_def State_as_tool_def s f(2) rs)
qed

section \<open>Lemmas on the readers and the client\<close>

lemma example_state_valid: "valid_State example_state"
  by (simp add: valid_State_def valid_Repository_def valid_Agent_def example_state_def
      example_repository_def example_agent_def AgentType_def)

lemma tool_Repository_validate_agents:
  "tool_Repository_validate L j = Some r \<Longrightarrow> distinct (map fst (agents r))"
  by (auto simp: tool_Repository_validate_def with_default_def bind_eq_Some_conv
      split: json.splits option.splits dest: v_dict_distinct)

lemma tool_State_validate_unique:
  assumes "tool_State_validate L j = Some s"
  shows "unique_names s"
proof -
  from assms obtain obj where j: "j = JObject obj"
    by (cases j) (simp_all add: tool_State_validate_def)
  from assms have rs: "with_default [] (v_dict (tool_Repository_validate L)) obj ''repos''
                       = Some (repos s)"
    by (auto simp: j tool_State_validate_def bind_eq_Some_conv)
  show ?thesis
  proof (cases "map_of obj ''repos''")
    case None
    with rs have "repos s = []" by (simp add: with_default_def)
    then show ?thesis by (simp add: unique_names_def)
  next
    case (Some x)
    with rs have v: "v_dict (tool_Repository_validate L) x = Some (repos s)"
      by (simp add: with_default_def)
    have "distinct (map fst (repos s))" using v by (rule v_dict_distinct)
    moreover have "list_all ((\<lambda>r. distinct (map fst (agents r))) \<circ> snd) (repos s)"
      using v by (rule v_dict_all) (rule tool_Repository_validate_agents)
    ultimately show ?thesis
      by (simp add: unique_names_def list_all_iff case_prod_beta)
  qed
qed

lemma model_validate_Inr: "model_validate v j = Inr x \<longleftrightarrow> v j = Some x"
  by (simp add: model_validate_def split: option.splits)

lemma StateReader_read_Inr:
  "StateReader_read L fs p = Inr s \<Longrightarrow> \<exists>d. fs p = Document d \<and> tool_State_validate L d = Some s"
  by (auto simp: StateReader_read_def StateReader_exists_def Path_exists_def stat_of_def
      bind_exc_def model_validate_def
      split: if_splits state_file.splits option.splits sum.splits)

lemma State_new_empty: "State_new L = Inr \<lparr>repos = [], current_repo = None\<rparr>"
  by (simp add: State_new_def model_validate_def tool_State_validate_def with_default_def)

lemma get_state_Inr:
  "get_state L D p = Inr s \<Longrightarrow> \<exists>d. tool_State_validate L d = Some s"
  by (auto simp: get_state_def bind_exc_def model_validate_Inr split: sum.splits)

lemma read_state_Inr:
  "StateWatcher_read_state L f = Inr s \<Longrightarrow> \<exists>d. tool_State_validate L d = Some s"
  by (auto simp: StateWatcher_read_state_def model_validate_Inr split: state_file.splits)

lemma async_get_state_Inr:
  "async_get_state L D p = Inr s \<Longrightarrow> \<exists>d. tool_State_validate L d = Some s"
  by (auto simp: async_get_state_def bind_exc_def model_validate_Inr split: sum.splits)

lemma example_fleet_valid: "valid_State example_fleet"
  by (simp add: valid_State_def valid_Repository_def valid_Agent_def example_fleet_def
      example_repository_def example_agent_def AgentType_def)

lemma example_fleet_unique: "unique_names example_fleet"
  by (simp add: unique_names_def example_fleet_def example_repository_def)

lemma example_fleet_wf: "wf_json (State_dump example_fleet :: unit json)"
  by (simp add: State_dump_def Repository_dump_def Agent_dump_def dump_dict_def
      dump_optional_def example_fleet_def example_repository_def example_agent_def)

lemma example_fleet_as_tool:
  "State_as_tool example_library example_fleet = Some example_fleet"
  by (simp add: State_as_tool_def Repository_as_tool_def Agent_as_tool_def
      optional_convert_def str_as_datetime_def v_datetime_def
      example_fleet_def example_repository_def example_agent_def example_library_def)

lemma example_fleet_ref_validate:
  "ref_State_validate example_library (State_dump example_fleet :: unit json)
   = Some example_fleet"
  using example_fleet_valid by (rule State_roundtrip)

lemma example_fleet_tool_validate:
  "tool_State_validate example_library (State_dump example_fleet :: unit json)
   = Some example_fleet"
  using State_refines [OF example_fleet_wf, of example_library example_fleet]
  by (simp add: example_fleet_ref_validate example_fleet_as_tool)

lemma state_daemon_response:
  "exchange state_daemon rq = WireDocument
     (JObject [(''success'', JBool True), (''data'', State_dump example_fleet)])
   \<and> Path_exists (socket_stat state_daemon) = Inr True"
  by (simp add: state_daemon_def Path_exists_def)

lemma refusing_daemon_response:
  "send_request example_library (refusing_daemon m) p cmd as
   = Inr \<lparr>success = False, data = JNull, error = Some m\<rparr>"
  by (simp add: send_request_def refusing_daemon_def model_validate_def Path_exists_def
      bind_exc_def SocketResponse_validate_def required_def with_default_def v_bool_def
      v_optional_def v_str_def)

lemma spawning_daemon_response:
  "send_request example_library (spawning_daemon reply) p cmd as
   = Inr \<lparr>success = True, data = JObject reply, error = None\<rparr>"
  by (simp add: send_request_def spawning_daemon_def model_validate_def Path_exists_def
      bind_exc_def SocketResponse_validate_def required_def with_default_def v_bool_def)

lemma socket_stat_fails:
  "Path_exists (socket_stat D) = Inl e \<Longrightarrow>
   send_request L D p cmd as = Inl e \<and> ping L D p = (case e of DaemonError m \<Rightarrow> Inr False | _ \<Rightarrow> Inl e)"
  by (simp add: send_request_def ping_def bind_exc_def split: exc.splits)

lemma StateReader_read_outcomes:
  "(fs p = Absent \<longrightarrow>
      StateReader_read L fs p = Inl (StateError (StateFileNotFound p))
      \<and> StateReader_read_or_empty L fs p = Inr \<lparr>repos = [], current_repo = None\<rparr>)
   \<and> (fs p = NotJSON \<longrightarrow> StateReader_read L fs p = Inl (StateError InvalidJSON))
   \<and> (fs p = Unloadable e \<longrightarrow> StateReader_read L fs p = Inl (StateError FailedToParse))
   \<and> (fs p = Document d \<and> tool_State_validate L d = None \<longrightarrow>
        StateReader_read L fs p = Inl (StateError FailedToParse))
   \<and> (fs p = Unreadable e' \<longrightarrow> StateReader_read L fs p = Inl (StateError FailedToParse))
   \<and> (fs p = Inaccessible \<longrightarrow>
        StateReader_read L fs p = Inl OSError \<and> StateReader_read_or_empty L fs p = Inl OSError)"
  by (cases "fs p")
    (auto simp: StateReader_read_def StateReader_read_or_empty_def StateReader_exists_def
      Path_exists_def stat_of_def bind_exc_def State_new_empty model_validate_def
      split: option.splits)

section \<open>Lemmas on the loops of \<^verbatim>\<open>get_active_workers\<close>\<close>

lemma active_workers_of_repo_eq:
  "active_workers_of_repo rn ags ws =
   ws @ [\<lparr>w_repo = rn, w_name = an, w_task = task a, w_created_at = created_at a\<rparr>.
          (an, a) \<leftarrow> ags, agent_type a = ''worker'' \<and> pid a > 0]"
  unfolding active_workers_of_repo_def
  by (induction ags arbitrary: ws) auto

lemma get_active_workers_loop:
  "foldl (\<lambda>ws (repo_name, repo). active_workers_of_repo repo_name (agents repo) ws) ws rs =
   ws @ [\<lparr>w_repo = rn, w_name = an, w_task = task a, w_created_at = created_at a\<rparr>.
          (rn, r) \<leftarrow> rs, (an, a) \<leftarrow> agents r, agent_type a = ''worker'' \<and> pid a > 0]"
proof (induction rs arbitrary: ws)
  case Nil
  then show ?case by simp
next
  case (Cons p rs)
  obtain rn r where p: "p = (rn, r)" by (cases p)
  show ?case
    by (simp add: p Cons.IH) (simp add: active_workers_of_repo_eq)
qed

lemma repo_worker_keys:
  "map (\<lambda>w. (w_repo w, w_name w))
     [\<lparr>w_repo = rn, w_name = an, w_task = task a, w_created_at = created_at a\<rparr>.
        (an, a) \<leftarrow> ags, agent_type a = ''worker'' \<and> pid a > 0]
   = map (Pair rn) (map fst (filter (\<lambda>p. agent_type (snd p) = ''worker'' \<and> pid (snd p) > 0) ags))"
  by (induction ags) auto

lemma distinct_map_Pair: "distinct (map (Pair k) xs) = distinct xs"
  by (simp add: distinct_map inj_on_def)

lemma repo_worker_keys_distinct:
  assumes "distinct (map fst ags)"
  shows "distinct (map (\<lambda>w. (w_repo w, w_name w))
     [\<lparr>w_repo = rn, w_name = an, w_task = task a, w_created_at = created_at a\<rparr>.
        (an, a) \<leftarrow> ags, agent_type a = ''worker'' \<and> pid a > 0])"
proof -
  have "distinct (map fst (filter (\<lambda>p. agent_type (snd p) = ''worker'' \<and> pid (snd p) > 0) ags))"
    using assms by (rule distinct_map_filter)
  then show ?thesis
    unfolding repo_worker_keys by (simp only: distinct_map_Pair)
qed

lemma repo_worker_repo:
  "w \<in> set [\<lparr>w_repo = rn, w_name = an, w_task = task a, w_created_at = created_at a\<rparr>.
        (an, a) \<leftarrow> ags, agent_type a = ''worker'' \<and> pid a > 0] \<Longrightarrow> w_repo w = rn"
  by auto

lemma worker_keys_distinct:
  "distinct (map fst rs) \<Longrightarrow> list_all (\<lambda>(n, r). distinct (map fst (agents r))) rs \<Longrightarrow>
   distinct (map (\<lambda>w. (w_repo w, w_name w))
     [\<lparr>w_repo = rn, w_name = an, w_task = task a, w_created_at = created_at a\<rparr>.
        (rn, r) \<leftarrow> rs, (an, a) \<leftarrow> agents r, agent_type a = ''worker'' \<and> pid a > 0])
   \<and> w_repo ` set
     [\<lparr>w_repo = rn, w_name = an, w_task = task a, w_created_at = created_at a\<rparr>.
        (rn, r) \<leftarrow> rs, (an, a) \<leftarrow> agents r, agent_type a = ''worker'' \<and> pid a > 0]
     \<subseteq> fst ` set rs"
proof (induction rs)
  case Nil
  then show ?case by simp
next
  case (Cons p rs)
  obtain rn r where p: "p = (rn, r)" by (cases p)
  define here where "here =
    [\<lparr>w_repo = rn, w_name = an, w_task = task a, w_created_at = created_at a\<rparr>.
        (an, a) \<leftarrow> agents r, agent_type a = ''worker'' \<and> pid a > 0]"
  define rest where "rest =
    [\<lparr>w_repo = rn, w_name = an, w_task = task a, w_created_at = created_at a\<rparr>.
        (rn, r) \<leftarrow> rs, (an, a) \<leftarrow> agents r, agent_type a = ''worker'' \<and> pid a > 0]"
  from Cons.prems have d: "distinct (map fst (agents r))" and fresh: "rn \<notin> fst ` set rs"
    and rs: "distinct (map fst rs)" "list_all (\<lambda>(n, r). distinct (map fst (agents r))) rs"
    by (auto simp: p)
  have here: "distinct (map (\<lambda>w. (w_repo w, w_name w)) here)"
    unfolding here_def using d by (rule repo_worker_keys_distinct)
  have here_repo: "\<And>w. w \<in> set here \<Longrightarrow> w_repo w = rn"
    unfolding here_def by (rule repo_worker_repo)
  from Cons.IH [OF rs] have ih: "distinct (map (\<lambda>w. (w_repo w, w_name w)) rest)"
    and sub: "w_repo ` set rest \<subseteq> fst ` set rs"
    unfolding rest_def by blast+
  have disj: "(\<lambda>w. (w_repo w, w_name w)) ` set here \<inter> (\<lambda>w. (w_repo w, w_name w)) ` set rest = {}"
  proof (rule ccontr)
    assume "\<not> ?thesis"
    then obtain x y where x: "x \<in> set here" and y: "y \<in> set rest"
      and xy: "(w_repo x, w_name x) = (w_repo y, w_name y)"
      by blast
    from x have "w_repo x = rn" by (rule here_repo)
    moreover from y sub have "w_repo y \<in> fst ` set rs" by blast
    ultimately show False using fresh xy by simp
  qed
  have split: "[\<lparr>w_repo = rn, w_name = an, w_task = task a, w_created_at = created_at a\<rparr>.
        (rn, r) \<leftarrow> p # rs, (an, a) \<leftarrow> agents r, agent_type a = ''worker'' \<and> pid a > 0]
        = here @ rest"
    by (simp add: p here_def rest_def)
  have 1: "distinct (map (\<lambda>w. (w_repo w, w_name w)) (here @ rest))"
    using here ih disj by simp
  have 2: "w_repo ` set (here @ rest) \<subseteq> fst ` set (p # rs)"
    using here_repo sub by (auto simp: p)
  show ?case unfolding split using 1 2 by blast
qed

section \<open>Lemmas on inputs complete for the reference models\<close>































section \<open>Lemmas on the example values\<close>
















section \<open>The properties\<close>

subsection \<open>Persistent agent types\<close>

text \<open>
  C1. In both packages \<^verbatim>\<open>PERSISTENT_AGENT_TYPES\<close> is the set of supervisor, merge-queue,
  pr-shepherd, workspace and generic-persistent, \<^verbatim>\<open>is_persistent_agent_type\<close> is
  membership in it, and over the seven agent types, in the order of \<^verbatim>\<open>AgentType\<close>, it
  returns True, False (worker), True, True, True, False (review), True.
\<close>

theorem is_persistent_agent_type_exact:
  "ref_PERSISTENT_AGENT_TYPES =
     {''supervisor'', ''merge-queue'', ''pr-shepherd'', ''workspace'', ''generic-persistent''}
   \<and> tool_PERSISTENT_AGENT_TYPES = ref_PERSISTENT_AGENT_TYPES
   \<and> ref_is_persistent_agent_type t =
       (t \<in> {''supervisor'', ''merge-queue'', ''pr-shepherd'', ''workspace'',
              ''generic-persistent''})
   \<and> tool_is_persistent_agent_type t = ref_is_persistent_agent_type t
   \<and> map ref_is_persistent_agent_type AgentType =
       [True, False, True, True, True, False, True]
   \<and> map tool_is_persistent_agent_type AgentType =
       [True, False, True, True, True, False, True]"
  by (simp add: ref_PERSISTENT_AGENT_TYPES_def tool_PERSISTENT_AGENT_TYPES_def
      ref_is_persistent_agent_type_def tool_is_persistent_agent_type_def AgentType_def)

subsection \<open>Round trip of the state\<close>

text \<open>
  C2. For every valid in-memory State of the reference types, also one in which every
  optional field is \<^verbatim>\<open>None\<close>, serialising it to JSON and parsing the result with
  \<^verbatim>\<open>parse_state\<close> returns the State itself.
\<close>

theorem state_round_trip:
  "valid_State s \<Longrightarrow> parse_state L (State_dump s) = Inr s"
  by (simp add: parse_state_def State_roundtrip)

text \<open>
  The example state: one repository, one agent, every optional field absent.
\<close>

theorem state_round_trip_witness:
  "valid_State example_state
   \<and> parse_state example_library (State_dump example_state :: unit json) = Inr example_state"
  using state_round_trip [of example_state example_library] example_state_valid by simp

subsection \<open>Unique names\<close>

text \<open>
  C3. In every State that a function of the two packages returns (\<^verbatim>\<open>parse_state\<close>,
  \<^verbatim>\<open>safe_parse_state\<close>, \<^verbatim>\<open>StateReader.read\<close>, \<^verbatim>\<open>StateReader.read_or_empty\<close>,
  \<^verbatim>\<open>DaemonClient.get_state\<close>, \<^verbatim>\<open>StateWatcher._read_state\<close>, whose results are all that
  \<^verbatim>\<open>__next__\<close> returns and \<^verbatim>\<open>__aiter__\<close> yields, and \<^verbatim>\<open>AsyncDaemonClient.get_state\<close>), the
  names of the repositories are pairwise different, and so are the names of the agents of
  each repository. Every State goes through validation, which fills each dict item by
  item; nothing in the packages changes a State afterwards.
\<close>

theorem names_unique:
  "(parse_state L j1 = Inr s1 \<longrightarrow> unique_names s1)
   \<and> (safe_parse_state L j2 = Some s2 \<longrightarrow> unique_names s2)
   \<and> (StateReader_read L fs3 p3 = Inr s3 \<longrightarrow> unique_names s3)
   \<and> (StateReader_read_or_empty L fs4 p4 = Inr s4 \<longrightarrow> unique_names s4)
   \<and> (get_state L D5 p5 = Inr s5 \<longrightarrow> unique_names s5)
   \<and> (StateWatcher_read_state L f6 = Inr s6 \<longrightarrow> unique_names s6)
   \<and> (async_get_state L D7 p7 = Inr s7 \<longrightarrow> unique_names s7)"
proof (intro conjI impI)
  assume "parse_state L j1 = Inr s1"
  then have "ref_State_validate L j1 = Some s1"
    by (simp add: parse_state_def split: option.splits)
  then show "unique_names s1" by (rule ref_State_validate_unique)
next
  assume "safe_parse_state L j2 = Some s2"
  then have "ref_State_validate L j2 = Some s2"
    by (simp add: safe_parse_state_def parse_state_def split: option.splits sum.splits)
  then show "unique_names s2" by (rule ref_State_validate_unique)
next
  assume "StateReader_read L fs3 p3 = Inr s3"
  then show "unique_names s3"
    by (auto dest!: StateReader_read_Inr intro: tool_State_validate_unique)
next
  assume a: "StateReader_read_or_empty L fs4 p4 = Inr s4"
  then obtain found where f: "StateReader_exists fs4 p4 = Inr found"
    by (cases "StateReader_exists fs4 p4")
      (simp_all add: StateReader_read_or_empty_def bind_exc_def)
  show "unique_names s4"
  proof (cases found)
    case True
    with a f have "StateReader_read L fs4 p4 = Inr s4"
      by (simp add: StateReader_read_or_empty_def bind_exc_def)
    then show ?thesis by (auto dest!: StateReader_read_Inr intro: tool_State_validate_unique)
  next
    case False
    with a f have "s4 = \<lparr>repos = [], current_repo = None\<rparr>"
      by (simp add: StateReader_read_or_empty_def bind_exc_def State_new_empty)
    then show ?thesis by (simp add: unique_names_def)
  qed
next
  assume "get_state L D5 p5 = Inr s5"
  then show "unique_names s5"
    by (auto dest!: get_state_Inr intro: tool_State_validate_unique)
next
  assume "StateWatcher_read_state L f6 = Inr s6"
  then show "unique_names s6"
    by (auto dest!: read_state_Inr intro: tool_State_validate_unique)
next
  assume "async_get_state L D7 p7 = Inr s7"
  then show "unique_names s7"
    by (auto dest!: async_get_state_Inr intro: tool_State_validate_unique)
qed

text \<open>
  The example fleet: two repositories, three agents in the first, and an agent of the
  same name in both.
\<close>

theorem names_unique_witness:
  "parse_state example_library (State_dump example_fleet :: unit json) = Inr example_fleet
   \<and> safe_parse_state example_library (State_dump example_fleet :: unit json)
       = Some example_fleet
   \<and> StateReader_read example_library example_files ''/tmp/fleet.json'' = Inr example_fleet
   \<and> StateReader_read_or_empty example_library example_files ''/tmp/fleet.json''
       = Inr example_fleet
   \<and> get_state example_library state_daemon example_socket = Inr example_fleet
   \<and> StateWatcher_read_state example_library (example_files ''/tmp/fleet.json'')
       = Inr example_fleet
   \<and> async_get_state example_library state_daemon example_socket = Inr example_fleet
   \<and> map fst (repos example_fleet) = [''my-repo'', ''other-repo'']
   \<and> map (\<lambda>(name, r). map fst (agents r)) (repos example_fleet)
       = [[''clever-fox'', ''idle-owl'', ''supervisor''], [''clever-fox'']]
   \<and> unique_names example_fleet"
proof -
  have f: "example_files ''/tmp/fleet.json'' = Document (State_dump example_fleet)"
    by (simp add: example_files_def)
  have 1: "parse_state example_library (State_dump example_fleet :: unit json) = Inr example_fleet"
    by (simp add: parse_state_def example_fleet_ref_validate)
  have 2: "safe_parse_state example_library (State_dump example_fleet :: unit json)
           = Some example_fleet"
    by (simp add: safe_parse_state_def 1)
  have 3: "StateReader_read example_library example_files ''/tmp/fleet.json'' = Inr example_fleet"
    by (simp add: StateReader_read_def StateReader_exists_def Path_exists_def stat_of_def
        bind_exc_def f model_validate_def example_fleet_tool_validate)
  have 4: "StateReader_read_or_empty example_library example_files ''/tmp/fleet.json''
           = Inr example_fleet"
    by (simp add: StateReader_read_or_empty_def StateReader_exists_def Path_exists_def
        stat_of_def bind_exc_def f 3)
  have 5: "get_state example_library state_daemon example_socket = Inr example_fleet"
    by (simp add: get_state_def send_request_def state_daemon_response bind_exc_def
        model_validate_def SocketResponse_validate_def required_def with_default_def
        v_bool_def require_success_def example_fleet_tool_validate)
  have 6: "StateWatcher_read_state example_library (example_files ''/tmp/fleet.json'')
           = Inr example_fleet"
    by (simp add: StateWatcher_read_state_def f model_validate_def example_fleet_tool_validate)
  have 7: "async_get_state example_library state_daemon example_socket = Inr example_fleet"
    by (simp add: async_get_state_def async_send_request_def state_daemon_response bind_exc_def
        model_validate_def SocketResponse_validate_def required_def with_default_def
        v_bool_def require_success_def example_fleet_tool_validate)
  have 8: "map fst (repos example_fleet) = [''my-repo'', ''other-repo'']"
    by (simp add: example_fleet_def)
  have 9: "map (\<lambda>(name, r). map fst (agents r)) (repos example_fleet)
       = [[''clever-fox'', ''idle-owl'', ''supervisor''], [''clever-fox'']]"
    by (simp add: example_fleet_def example_repository_def)
  from names_unique [of example_library "State_dump example_fleet" example_fleet
      "State_dump example_fleet" example_fleet
      example_files "''/tmp/fleet.json''" example_fleet
      example_files "''/tmp/fleet.json''" example_fleet
      state_daemon example_socket example_fleet
      "example_files ''/tmp/fleet.json''" example_fleet
      state_daemon example_socket example_fleet]
  show ?thesis using 1 2 3 4 5 6 7 8 9 by simp
qed

subsection \<open>The two packages\<close>




subsection \<open>Ping without a socket\<close>

text \<open>
  C5, as stated, fails: \<^verbatim>\<open>ping\<close> returns \<^verbatim>\<open>False\<close> when the socket file does not exist,
  and \<^verbatim>\<open>False\<close> again when the daemon answers with \<^verbatim>\<open>success=false\<close>. Its caller cannot
  tell the two apart.
\<close>

theorem ping_same_for_both_failures:
  "Path_exists (socket_stat absent_socket) = Inr False
   \<and> send_request example_library (refusing_daemon ''unknown command'') example_socket ''ping''
       None = Inr \<lparr>success = False, data = JNull, error = Some ''unknown command''\<rparr>
   \<and> ping example_library absent_socket example_socket = Inr False
   \<and> ping example_library (refusing_daemon ''unknown command'') example_socket = Inr False"
  by (simp add: refusing_daemon_response ping_def)
    (simp add: send_request_def absent_socket_def Path_exists_def bind_exc_def)

text \<open>
  C5, amended. When \<^verbatim>\<open>exists()\<close> reports that the socket file does not exist,
  \<^verbatim>\<open>_send_request\<close> raises \<^verbatim>\<open>DaemonError("Socket not found: <path>")\<close> for every command,
  \<^verbatim>\<open>ping\<close> included, and returns no response: there the failure to connect differs from
  a returned response with \<^verbatim>\<open>success=false\<close>. \<^verbatim>\<open>DaemonClient.ping\<close> catches the
  \<^verbatim>\<open>DaemonError\<close> and returns \<^verbatim>\<open>False\<close>, which is also what it returns for a response with
  \<^verbatim>\<open>success=false\<close>.
\<close>

theorem socket_absent_is_raised:
  "(Path_exists (socket_stat D) = Inr False \<longrightarrow>
      send_request L D p cmd as = Inl (DaemonError (''Socket not found: '' @ p))
      \<and> (\<forall>r. send_request L D p cmd as \<noteq> Inr r)
      \<and> ping L D p = Inr False)
   \<and> (send_request L D' p' ''ping'' None = Inr r' \<and> \<not> success r' \<longrightarrow> ping L D' p' = Inr False)"
  by (simp add: send_request_def ping_def bind_exc_def)

theorem socket_absent_is_raised_witness:
  "Path_exists (socket_stat absent_socket) = Inr False
   \<and> send_request example_library absent_socket example_socket ''ping'' None
       = Inl (DaemonError (''Socket not found: '' @ example_socket))
   \<and> ping example_library absent_socket example_socket = Inr False
   \<and> send_request example_library (refusing_daemon ''unknown command'') example_socket ''ping''
       None = Inr \<lparr>success = False, data = JNull, error = Some ''unknown command''\<rparr>
   \<and> ping example_library (refusing_daemon ''unknown command'') example_socket = Inr False"
  using socket_absent_is_raised
    [of absent_socket example_library example_socket "''ping''" None
      "refusing_daemon ''unknown command''" example_socket
      "\<lparr>success = False, data = JNull, error = Some ''unknown command''\<rparr>"]
  by (simp add: absent_socket_def refusing_daemon_response Path_exists_def)

subsection \<open>Responses that report a failure\<close>

text \<open>
  C6, as stated, fails on a response whose error field is the empty string: the
  \<^verbatim>\<open>DaemonError\<close> does not carry that message but \<^verbatim>\<open>"Unknown error"\<close>.
\<close>

theorem empty_error_message_replaced:
  "send_request example_library (refusing_daemon []) example_socket ''status'' None
     = Inr \<lparr>success = False, data = JNull, error = Some []\<rparr>
   \<and> status example_library (refusing_daemon []) example_socket
       = Inl (DaemonError ''Unknown error'')
   \<and> status example_library (refusing_daemon []) example_socket \<noteq> Inl (DaemonError [])"
  by (simp add: refusing_daemon_response status_def bind_exc_def require_success_def
      error_or_unknown_def)

text \<open>
  C6, amended. For every response with \<^verbatim>\<open>success=false\<close>, each of \<^verbatim>\<open>status\<close>,
  \<^verbatim>\<open>get_state\<close>, \<^verbatim>\<open>get_repo\<close>, \<^verbatim>\<open>spawn_worker\<close>, \<^verbatim>\<open>task_history\<close> and
  \<^verbatim>\<open>send_message\<close> raises a \<^verbatim>\<open>DaemonError\<close> that carries the error message of the
  response, or \<^verbatim>\<open>"Unknown error"\<close> when the error field is absent or the empty string;
  it produces no other result.
\<close>

theorem failure_response_raises:
  "\<not> success r \<longrightarrow>
     require_success r = Inl (DaemonError (error_or_unknown r))
     \<and> error_or_unknown r =
         (case error r of None \<Rightarrow> ''Unknown error''
          | Some e \<Rightarrow> if e = [] then ''Unknown error'' else e)
     \<and> (send_request L D p ''status'' None = Inr r \<longrightarrow>
          status L D p = Inl (DaemonError (error_or_unknown r)))
     \<and> (send_request L D p ''get_state'' None = Inr r \<longrightarrow>
          (get_state L D p :: exc + 'd State) = Inl (DaemonError (error_or_unknown r)))
     \<and> (send_request L D p ''get_repo'' (Some [(''name'', JString name)]) = Inr r \<longrightarrow>
          (get_repo L D p name :: exc + 'd Repository) = Inl (DaemonError (error_or_unknown r)))
     \<and> (send_request L D p ''spawn_worker'' (Some (spawn_worker_args t repo branch push_to))
          = Inr r \<longrightarrow>
          spawn_worker L D p t repo branch push_to = Inl (DaemonError (error_or_unknown r)))
     \<and> (send_request L D p ''task_history''
           (let as = task_history_args repo limit st in if as = [] then None else Some as)
          = Inr r \<longrightarrow>
          (client_task_history L D p repo limit st :: exc + 'd TaskHistoryEntry list)
          = Inl (DaemonError (error_or_unknown r)))
     \<and> (send_request L D p ''send_message''
           (Some [(''to'', JString to), (''body'', JString body), (''from'', JString from_agent)])
          = Inr r \<longrightarrow>
          send_message L D p to body from_agent = Inl (DaemonError (error_or_unknown r)))"
  by (simp add: require_success_def error_or_unknown_def status_def get_state_def get_repo_def
      spawn_worker_def client_task_history_def send_message_def bind_exc_def)

theorem failure_response_raises_witness:
  "\<not> success (\<lparr>success = False, data = JNull, error = Some ''unknown command''\<rparr>
       :: unit SocketResponse)
   \<and> status example_library (refusing_daemon ''unknown command'') example_socket
       = Inl (DaemonError ''unknown command'')
   \<and> get_state example_library (refusing_daemon ''unknown command'') example_socket
       = Inl (DaemonError ''unknown command'')
   \<and> get_repo example_library (refusing_daemon ''unknown command'') example_socket ''my-repo''
       = Inl (DaemonError ''unknown command'')
   \<and> spawn_worker example_library (refusing_daemon ''unknown command'') example_socket
         ''fix bug'' (Some ''my-repo'') None None
       = Inl (DaemonError ''unknown command'')
   \<and> client_task_history example_library (refusing_daemon ''unknown command'') example_socket
         (Some ''my-repo'') (Some 1) (Some ''merged'')
       = Inl (DaemonError ''unknown command'')
   \<and> send_message example_library (refusing_daemon ''unknown command'') example_socket
         ''supervisor'' ''hello'' ''external''
       = Inl (DaemonError ''unknown command'')"
  using failure_response_raises
    [of "\<lparr>success = False, data = JNull, error = Some ''unknown command''\<rparr>"
      example_library "refusing_daemon ''unknown command''" example_socket "''my-repo''"
      "''fix bug''" "Some ''my-repo''" None None "Some 1" "Some ''merged''"
      "''supervisor''" "''hello''" "''external''"]
  by (simp add: refusing_daemon_response error_or_unknown_def)

subsection \<open>The type of an agent\<close>

text \<open>
  C7. \<^verbatim>\<open>parse_agent\<close> returns an agent only when the \<^verbatim>\<open>type\<close> field of its input is
  one of the seven strings of \<^verbatim>\<open>AgentType\<close>, and the agent then has that type; on every
  input whose \<^verbatim>\<open>type\<close> field is anything else, or absent, it raises
  \<^verbatim>\<open>ValidationError\<close>.
\<close>

theorem parse_agent_type_closed:
  "set AgentType =
     {''supervisor'', ''worker'', ''merge-queue'', ''pr-shepherd'', ''workspace'', ''review'',
      ''generic-persistent''}
   \<and> (parse_agent L (JObject obj1) = Inr a \<longrightarrow>
        (\<exists>t \<in> set AgentType. map_of obj1 ''type'' = Some (JString t) \<and> agent_type a = t))
   \<and> ((\<forall>t \<in> set AgentType. map_of obj2 ''type'' \<noteq> Some (JString t)) \<longrightarrow>
        parse_agent L (JObject obj2) = Inl ValidationError)"
proof (intro conjI impI)
  show "set AgentType =
     {''supervisor'', ''worker'', ''merge-queue'', ''pr-shepherd'', ''workspace'', ''review'',
      ''generic-persistent''}"
    by (simp add: AgentType_def)
next
  assume "parse_agent L (JObject obj1) = Inr a"
  then show "\<exists>t \<in> set AgentType. map_of obj1 ''type'' = Some (JString t) \<and> agent_type a = t"
    by (rule parse_agent_accepts)
next
  assume no: "\<forall>t \<in> set AgentType. map_of obj2 ''type'' \<noteq> Some (JString t)"
  show "parse_agent L (JObject obj2) = Inl ValidationError"
  proof (cases "parse_agent L (JObject obj2)")
    case (Inl e)
    then show ?thesis by (simp add: parse_agent_def split: option.splits)
  next
    case (Inr a)
    from parse_agent_accepts [OF this] no show ?thesis by blast
  qed
qed

theorem parse_agent_type_closed_witness:
  "parse_agent example_library (JObject (example_agent_fields ''worker'')) = Inr example_agent
   \<and> (\<exists>t \<in> set AgentType.
         map_of (example_agent_fields ''worker'') ''type'' = Some (JString t)
         \<and> agent_type example_agent = t)
   \<and> map_of (example_agent_fields ''manager'') ''type'' = Some (JString ''manager'')
   \<and> ''manager'' \<notin> set AgentType
   \<and> parse_agent example_library (JObject (example_agent_fields ''manager''))
       = Inl ValidationError"
proof -
  have 1: "parse_agent example_library (JObject (example_agent_fields ''worker''))
           = Inr example_agent"
    by (simp add: parse_agent_def ref_Agent_validate_def example_agent_fields_def
        example_agent_def field_defs AgentType_def)
  have 2: "map_of (example_agent_fields ''manager'') ''type'' = Some (JString ''manager'')"
    by (simp add: example_agent_fields_def)
  have 3: "''manager'' \<notin> set AgentType"
    by (simp add: AgentType_def)
  from 2 3 have 4: "\<forall>t \<in> set AgentType.
             map_of (example_agent_fields ''manager'') ''type'' \<noteq> Some (JString t)"
    by auto
  from parse_agent_type_closed
    [of example_library "example_agent_fields ''worker''" example_agent
      "example_agent_fields ''manager''"]
  show ?thesis using 1 2 3 4 by blast
qed

subsection \<open>Active workers\<close>

text \<open>
  C8. \<^verbatim>\<open>get_active_workers\<close> returns one record for each agent, over all
  repositories in their order, whose type is \<^verbatim>\<open>"worker"\<close> and whose pid is greater than
  0, and nothing else; the record carries the name of the repository, the name of the
  agent, its task and its creation timestamp. When the names are unique, no two records
  have the same repository and agent name.
\<close>

theorem get_active_workers_exact:
  "get_active_workers s =
     [\<lparr>w_repo = rn, w_name = an, w_task = task a, w_created_at = created_at a\<rparr>.
        (rn, r) \<leftarrow> repos s, (an, a) \<leftarrow> agents r, agent_type a = ''worker'' \<and> pid a > 0]
   \<and> (unique_names s \<longrightarrow>
        distinct (map (\<lambda>w. (w_repo w, w_name w)) (get_active_workers s)))"
proof -
  have eq: "get_active_workers s =
     [\<lparr>w_repo = rn, w_name = an, w_task = task a, w_created_at = created_at a\<rparr>.
        (rn, r) \<leftarrow> repos s, (an, a) \<leftarrow> agents r, agent_type a = ''worker'' \<and> pid a > 0]"
    using get_active_workers_loop [of "[]" "repos s"] by (simp add: get_active_workers_def)
  show ?thesis
    unfolding eq using worker_keys_distinct [of "repos s"] by (simp add: unique_names_def)
qed

theorem get_active_workers_exact_witness:
  "unique_names example_fleet
   \<and> get_active_workers example_fleet =
       [\<lparr>w_repo = ''my-repo'', w_name = ''clever-fox'', w_task = None,
         w_created_at = ''2024-01-15T10:30:00Z''\<rparr>,
        \<lparr>w_repo = ''other-repo'', w_name = ''clever-fox'', w_task = Some ''fix bug'',
         w_created_at = ''2024-01-15T10:30:00Z''\<rparr>]
   \<and> distinct (map (\<lambda>w. (w_repo w, w_name w)) (get_active_workers example_fleet))"
proof -
  have u: "unique_names example_fleet"
    by (simp add: unique_names_def example_fleet_def example_repository_def)
  from get_active_workers_exact [of example_fleet] u
  have eq: "get_active_workers example_fleet =
     [\<lparr>w_repo = rn, w_name = an, w_task = task a, w_created_at = created_at a\<rparr>.
        (rn, r) \<leftarrow> repos example_fleet, (an, a) \<leftarrow> agents r,
        agent_type a = ''worker'' \<and> pid a > 0]"
    and d: "distinct (map (\<lambda>w. (w_repo w, w_name w)) (get_active_workers example_fleet))"
    by blast+
  have "get_active_workers example_fleet =
       [\<lparr>w_repo = ''my-repo'', w_name = ''clever-fox'', w_task = None,
         w_created_at = ''2024-01-15T10:30:00Z''\<rparr>,
        \<lparr>w_repo = ''other-repo'', w_name = ''clever-fox'', w_task = Some ''fix bug'',
         w_created_at = ''2024-01-15T10:30:00Z''\<rparr>]"
    unfolding eq by (simp add: example_fleet_def example_repository_def example_agent_def)
  with u d show ?thesis by blast
qed

subsection \<open>Reading the state file\<close>

text \<open>
  C9. \<^verbatim>\<open>StateReader.read\<close> is to raise \<^verbatim>\<open>StateError\<close> for every missing state file, and
  \<^verbatim>\<open>read_or_empty\<close> to return the empty State then, as their docstrings say. They do so
  whenever \<^verbatim>\<open>exists()\<close> returns (\<open>StateReader_read_outcomes\<close>). But \<^verbatim>\<open>exists()\<close> is
  called before the \<^verbatim>\<open>try\<close> block: at a path that \<^verbatim>\<open>stat\<close> refuses, here a name of 300
  characters, where no file can be, both raise \<^verbatim>\<open>OSError\<close>.
\<close>

theorem read_raises_OSError:
  "example_files long_path = Inaccessible
   \<and> StateReader_exists example_files long_path = Inl OSError
   \<and> StateReader_read example_library example_files long_path = Inl OSError
   \<and> StateReader_read_or_empty example_library example_files long_path = Inl OSError"
proof -
  have f: "example_files long_path = Inaccessible"
    by (simp add: example_files_def long_path_def)
  then show ?thesis
    by (simp add: StateReader_read_def StateReader_read_or_empty_def StateReader_exists_def
        Path_exists_def stat_of_def bind_exc_def)
qed

subsection \<open>The name of a spawned worker\<close>

text \<open>
  C10. When the response to \<^verbatim>\<open>spawn_worker\<close> is a success whose data is a dict,
  \<^verbatim>\<open>DaemonClient.spawn_worker\<close> returns the string stored under \<^verbatim>\<open>"name"\<close>, and the
  empty string, without raising, when the dict has no such key.
\<close>

theorem spawn_worker_name:
  "send_request L D p ''spawn_worker'' (Some (spawn_worker_args t repo branch push_to)) = Inr r
   \<and> success r \<and> data r = JObject kvs \<longrightarrow>
     (\<forall>n. map_of kvs ''name'' = Some (JString n) \<longrightarrow>
        spawn_worker L D p t repo branch push_to = Inr n)
     \<and> (map_of kvs ''name'' = None \<longrightarrow> spawn_worker L D p t repo branch push_to = Inr [])"
  by (simp add: spawn_worker_def bind_exc_def require_success_def py_get_def py_str_def)

theorem spawn_worker_name_witness:
  "send_request example_library (spawning_daemon [(''name'', JString ''clever-fox'')])
     example_socket ''spawn_worker'' (Some (spawn_worker_args ''fix bug'' (Some ''r1'') None None))
     = Inr \<lparr>success = True, data = JObject [(''name'', JString ''clever-fox'')], error = None\<rparr>
   \<and> spawn_worker example_library (spawning_daemon [(''name'', JString ''clever-fox'')])
       example_socket ''fix bug'' (Some ''r1'') None None = Inr ''clever-fox''
   \<and> send_request example_library (spawning_daemon [])
       example_socket ''spawn_worker'' (Some (spawn_worker_args ''fix bug'' (Some ''r1'') None None))
       = Inr \<lparr>success = True, data = JObject [], error = None\<rparr>
   \<and> spawn_worker example_library (spawning_daemon []) example_socket ''fix bug'' (Some ''r1'')
       None None = Inr []"
  using
    spawn_worker_name [of example_library "spawning_daemon [(''name'', JString ''clever-fox'')]"
      example_socket "''fix bug''" "Some ''r1''" None None
      "\<lparr>success = True, data = JObject [(''name'', JString ''clever-fox'')], error = None\<rparr>"
      "[(''name'', JString ''clever-fox'')]"]
    spawn_worker_name [of example_library "spawning_daemon []"
      example_socket "''fix bug''" "Some ''r1''" None None
      "\<lparr>success = True, data = JObject [], error = None\<rparr>" "[]"]
  by (simp add: spawning_daemon_response)

end
